theory Spec2Isabelle
  imports Complex_Main "HOL-Library.Log_Nat"
begin

section \<open>JavaScript numbers and strings\<close>

text \<open>
  A JavaScript number is a binary64 value: NaN, an infinity or a finite number, which is kept
  here as the rational it denotes (the two zeros are one). Every arithmetic operation and
  every conversion from text computes the exact result and rounds it to binary64 with
  \<open>round64\<close>: to the nearest number with a 53-bit significand, ties to the even
  significand, with the subnormal numbers below \<open>2^-1022\<close> and an infinity from \<open>2^1024\<close>
  on. NaN absorbs every operation and every comparison with NaN is false.
\<close>

datatype jsnum = NaN | NegInf | Fin rat | PosInf

subsection \<open>Rounding to binary64\<close>

text \<open>
  \<open>ilog2 x\<close> is the binary exponent of a positive rational: \<open>2^e \<le> x < 2^(e+1)\<close>. The bit
  lengths of numerator and denominator give it up to one, and one comparison settles it.
\<close>

definition ilog2_from :: "int \<Rightarrow> rat \<Rightarrow> int" where
  "ilog2_from k x = (if 2 powi k \<le> x then k else k - 1)"

definition ilog2 :: "rat \<Rightarrow> int" where
  "ilog2 x = (case quotient_of x of (p, q) \<Rightarrow> ilog2_from (bitlen p - bitlen q) x)"

text \<open>The nearest integer to \<open>m\<close>, the even one of the two when \<open>m\<close> lies halfway; \<open>f\<close> is its floor.\<close>

definition roundTo :: "int \<Rightarrow> rat \<Rightarrow> int" where
  "roundTo f m =
     (if m - of_int f < 1 / 2 then f
      else if 1 / 2 < m - of_int f then f + 1
      else if even f then f else f + 1)"

definition roundHalfEven :: "rat \<Rightarrow> int" where
  "roundHalfEven m = roundTo \<lfloor>m\<rfloor> m"

text \<open>The multiple of the quantum \<open>q\<close> nearest to \<open>a\<close>.\<close>

definition quantize :: "rat \<Rightarrow> rat \<Rightarrow> rat" where
  "quantize q a = of_int (roundHalfEven (a / q)) * q"

text \<open>\<open>2^1024\<close>, from which a rounded magnitude is an infinity.\<close>

definition overflowThreshold :: rat where
  "overflowThreshold = 179769313486231590772930519078902473361797697894230657273430081157732675805500963132708477322407536021120113879871393357658789768814416622492847430639474124377767893424865485276302219601246094119453082952085005768838150682342462881473913110540827237163350510684586298239947245938479716304835356329624224137216"

definition overflow :: "bool \<Rightarrow> rat \<Rightarrow> jsnum" where
  "overflow pos v =
     (if overflowThreshold \<le> v then (if pos then PosInf else NegInf)
      else Fin (if pos then v else - v))"

text \<open>
  A magnitude with binary exponent \<open>e\<close> is rounded to a multiple of \<open>2^(e-52)\<close>, and of
  \<open>2^-1074\<close> in the subnormal range.
\<close>

definition round64 :: "rat \<Rightarrow> jsnum" where
  "round64 x =
     (if x = 0 then Fin 0
      else overflow (0 < x) (quantize (2 powi (max (ilog2 \<bar>x\<bar>) (- 1022) - 52)) \<bar>x\<bar>))"

subsection \<open>Arithmetic and comparison\<close>

fun js_neg :: "jsnum \<Rightarrow> jsnum" where
  "js_neg NaN = NaN"
| "js_neg NegInf = PosInf"
| "js_neg (Fin a) = Fin (- a)"
| "js_neg PosInf = NegInf"

fun js_add :: "jsnum \<Rightarrow> jsnum \<Rightarrow> jsnum" where
  "js_add NaN y = NaN"
| "js_add x NaN = NaN"
| "js_add (Fin a) (Fin b) = round64 (a + b)"
| "js_add PosInf NegInf = NaN"
| "js_add NegInf PosInf = NaN"
| "js_add PosInf y = PosInf"
| "js_add x PosInf = PosInf"
| "js_add NegInf y = NegInf"
| "js_add x NegInf = NegInf"

definition js_sub :: "jsnum \<Rightarrow> jsnum \<Rightarrow> jsnum" where
  "js_sub x y = js_add x (js_neg y)"

fun js_mul :: "jsnum \<Rightarrow> jsnum \<Rightarrow> jsnum" where
  "js_mul NaN y = NaN"
| "js_mul x NaN = NaN"
| "js_mul (Fin a) (Fin b) = round64 (a * b)"
| "js_mul (Fin a) PosInf = (if a = 0 then NaN else if 0 < a then PosInf else NegInf)"
| "js_mul (Fin a) NegInf = (if a = 0 then NaN else if 0 < a then NegInf else PosInf)"
| "js_mul PosInf (Fin b) = (if b = 0 then NaN else if 0 < b then PosInf else NegInf)"
| "js_mul NegInf (Fin b) = (if b = 0 then NaN else if 0 < b then NegInf else PosInf)"
| "js_mul PosInf PosInf = PosInf"
| "js_mul NegInf NegInf = PosInf"
| "js_mul PosInf NegInf = NegInf"
| "js_mul NegInf PosInf = NegInf"

text \<open>\<open>x > y\<close> on numbers.\<close>

fun js_gt :: "jsnum \<Rightarrow> jsnum \<Rightarrow> bool" where
  "js_gt NaN y = False"
| "js_gt x NaN = False"
| "js_gt (Fin a) (Fin b) = (b < a)"
| "js_gt PosInf PosInf = False"
| "js_gt PosInf y = True"
| "js_gt x PosInf = False"
| "js_gt NegInf y = False"
| "js_gt x NegInf = True"

text \<open>\<open>x <= y\<close> on numbers (false when either side is NaN, so it is not the negation of \<open>>\<close>).\<close>

fun js_le :: "jsnum \<Rightarrow> jsnum \<Rightarrow> bool" where
  "js_le NaN y = False"
| "js_le x NaN = False"
| "js_le x y = (\<not> js_gt x y)"

definition isNaN :: "jsnum \<Rightarrow> bool" where
  "isNaN x = (x = NaN)"

fun isFinite :: "jsnum \<Rightarrow> bool" where
  "isFinite (Fin a) = True"
| "isFinite x = False"

text \<open>\<open>Math.max\<close> on the integers the fallback uses.\<close>

definition Math_max :: "int \<Rightarrow> int \<Rightarrow> int" where
  "Math_max a b = (if a < b then b else a)"

subsection \<open>Dates\<close>

text \<open>
  A \<open>Date\<close> holds a time value, a whole number of milliseconds since the epoch of at most
  \<open>8.64e15\<close> in absolute value, or is an invalid date. \<open>newDate\<close> is \<open>new Date(number)\<close>,
  which cuts the fraction off a number in range; \<open>getTime\<close> of an invalid date is NaN.
\<close>

datatype jsdate = InvalidDate | DateAt int

definition truncateToInt :: "rat \<Rightarrow> int" where
  "truncateToInt t = (if 0 \<le> t then \<lfloor>t\<rfloor> else \<lceil>t\<rceil>)"

definition newDate :: "jsnum \<Rightarrow> jsdate" where
  "newDate v =
     (case v of
        Fin t \<Rightarrow> if \<bar>t\<bar> \<le> 8640000000000000 then DateAt (truncateToInt t) else InvalidDate
      | _ \<Rightarrow> InvalidDate)"

definition getTime :: "jsdate \<Rightarrow> jsnum" where
  "getTime d = (case d of DateAt t \<Rightarrow> Fin (of_int t) | InvalidDate \<Rightarrow> NaN)"

subsection \<open>Characters\<close>

definition isDigit :: "char \<Rightarrow> bool" where
  "isDigit c = (c \<in> set ''0123456789'')"

definition digitVal :: "char \<Rightarrow> int" where
  "digitVal c = (case map_of (zip ''0123456789'' [0, 1, 2, 3, 4, 5, 6, 7, 8, 9]) c of
                   Some d \<Rightarrow> d | None \<Rightarrow> 0)"

definition digitsVal :: "string \<Rightarrow> int" where
  "digitsVal ds = foldl (\<lambda>acc c. 10 * acc + digitVal c) 0 ds"

text \<open>The white space \<open>parseFloat\<close> skips, on ASCII input: TAB, LF, VT, FF, CR and the space.\<close>

definition isWhiteSpace :: "char \<Rightarrow> bool" where
  "isWhiteSpace c = (c \<in> {CHR 0x09, CHR 0x0A, CHR 0x0B, CHR 0x0C, CHR 0x0D, CHR '' ''})"

text \<open>\<open>String.prototype.toLowerCase\<close> on ASCII text (other bytes are left alone).\<close>

definition lowerChar :: "char \<Rightarrow> char" where
  "lowerChar c = (case map_of (zip ''ABCDEFGHIJKLMNOPQRSTUVWXYZ'' ''abcdefghijklmnopqrstuvwxyz'') c of
                    Some l \<Rightarrow> l | None \<Rightarrow> c)"

definition toLowerCase :: "string \<Rightarrow> string" where
  "toLowerCase s = map lowerChar s"

fun startsWith :: "string \<Rightarrow> string \<Rightarrow> bool" where
  "startsWith s [] = True"
| "startsWith [] (p # ps) = False"
| "startsWith (c # cs) (p # ps) = (c = p \<and> startsWith cs ps)"

text \<open>\<open>String.prototype.includes\<close>: the needle occurs somewhere in the string.\<close>

fun str_includes :: "string \<Rightarrow> string \<Rightarrow> bool" where
  "str_includes [] sub = (sub = [])"
| "str_includes (c # cs) sub = (startsWith (c # cs) sub \<or> str_includes cs sub)"

subsection \<open>parseFloat\<close>

text \<open>
  The global \<open>parseFloat\<close>: leading white space is skipped, then the longest prefix that is a
  decimal literal is read (an optional sign, then \<open>Infinity\<close> or digits with an optional
  fraction and an optional exponent); anything after it is ignored, and NaN is the result
  when there is no such prefix. The value of the literal is rounded to binary64.
\<close>

definition parseExponent :: "string \<Rightarrow> int" where
  "parseExponent r =
     (case r of
        [] \<Rightarrow> 0
      | e # r1 \<Rightarrow>
          if e = CHR ''e'' \<or> e = CHR ''E'' then
            (case r1 of
               [] \<Rightarrow> 0
             | sg # r2 \<Rightarrow>
                 if sg = CHR ''-'' then
                   (if takeWhile isDigit r2 = [] then 0 else - digitsVal (takeWhile isDigit r2))
                 else if sg = CHR ''+'' then
                   (if takeWhile isDigit r2 = [] then 0 else digitsVal (takeWhile isDigit r2))
                 else digitsVal (takeWhile isDigit r1))
          else 0)"

definition scale10 :: "rat \<Rightarrow> int \<Rightarrow> rat" where
  "scale10 m e = (if 0 \<le> e then m * 10 ^ nat e else m / 10 ^ nat (- e))"

definition parseUnsigned :: "string \<Rightarrow> jsnum" where
  "parseUnsigned s =
     (if startsWith s ''Infinity'' then PosInf
      else
        let ip = takeWhile isDigit s;
            r1 = dropWhile isDigit s;
            fp = (case r1 of [] \<Rightarrow> [] | d # r \<Rightarrow> if d = CHR ''.'' then takeWhile isDigit r else []);
            r2 = (case r1 of [] \<Rightarrow> [] | d # r \<Rightarrow> if d = CHR ''.'' then dropWhile isDigit r else r1)
        in if ip = [] \<and> fp = [] then NaN
           else round64 (scale10 (of_int (digitsVal (ip @ fp)) / 10 ^ length fp) (parseExponent r2)))"

definition parseFloat :: "string \<Rightarrow> jsnum" where
  "parseFloat s =
     (case dropWhile isWhiteSpace s of
        [] \<Rightarrow> NaN
      | c # cs \<Rightarrow>
          if c = CHR ''-'' then js_neg (parseUnsigned cs)
          else if c = CHR ''+'' then parseUnsigned cs
          else parseUnsigned (c # cs))"


section \<open>Data model\<close>

subsection \<open>Permissions and the spend ledger\<close>

text \<open>
  The dates of a permission are valid dates, kept as their time values in milliseconds since
  the epoch. The permission map and the ledger map are keyed by
  the permission id: \<open>createPermission\<close> stores every entry under the id it carries and nothing
  re-keys an entry, so the records do not repeat the id and a write to
  \<open>permissions.set(permission.id, permission)\<close> is a write at the key the permission was read
  from. \<open>totalSpent\<close> and \<open>remainingAllowance\<close> are held as the numbers whose
  \<open>toString()\<close> the code stores: it only ever reads them back through \<open>parseFloat\<close>, which
  returns the number that was printed.
\<close>

datatype PermissionStatus = Active | Expired | Revoked | Pending

record ERC7715Permission =
  tokenAddress :: string
  maxSpendAmount :: string
  startTime :: int
  endTime :: int
  allowedContracts :: "string list"
  status :: PermissionStatus
  grantedAt :: int
  transactionHash :: "string option"
  smartAccountPermissionId :: "string option"

record PermissionRequest =
  req_tokenAddress :: string
  req_maxSpendAmount :: string
  req_startTime :: int
  req_endTime :: int
  req_allowedContracts :: "string list"

record SpendEntry =
  entry_timestamp :: int
  entry_amount :: string
  entry_transactionHash :: string
  remainingAfter :: jsnum

record SpendTracking =
  totalSpent :: jsnum
  remainingAllowance :: jsnum
  spendEntries :: "SpendEntry list"

record PermissionManager =
  permissions :: "string \<rightharpoonup> ERC7715Permission"
  spendTracking :: "string \<rightharpoonup> SpendTracking"

subsection \<open>Intents, schedules, decisions, executions\<close>

datatype ScheduleType = Once | Recurring

datatype Frequency = Minutely | Hourly | Daily | Weekly | Monthly

record AgentSchedule =
  sched_type :: ScheduleType
  frequency :: "Frequency option"
  interval :: "jsnum option"
  nextExecution :: "jsdate option"
  isActive :: bool

record AgentIntent =
  description :: string
  intent_tokenAddress :: string
  amount :: string
  contractAddress :: string
  permissionId :: string
  schedule :: "AgentSchedule option"

record AgentDecision =
  shouldExecute :: bool
  reasoning :: string
  confidence :: int
  riskAssessment :: string

datatype ExecutionStatus = ExecPending | Executed | Failed | Blocked

record AgentExecution =
  exec_id :: string
  exec_intent :: AgentIntent
  decision :: AgentDecision
  exec_status :: ExecutionStatus
  exec_transactionHash :: "string option"
  exec_timestamp :: int
  explanation :: string
  gasUsed :: "string option"
  error :: "string option"

datatype Congestion = Low | Medium | High

record MarketContext =
  gasPrice :: string
  tokenPrice :: string
  networkCongestion :: Congestion
  mc_timestamp :: int

subsection \<open>The collaborators\<close>

text \<open>
  What one call observes of the world outside the two services: the wallet manager, the
  smart-account service, the clock, the random identifiers, the market snapshot
  (\<open>gatherMarketContext\<close> draws it at random and cannot fail) and the reasoning provider. A
  call happens at one instant: every \<open>new Date()\<close> and \<open>Date.now()\<close> in it reads the time
  value \<open>dateNow\<close>.
  A result object \<open>{success, ..., error}\<close> of the smart-account service is a datatype.
  \<open>gaiaReply\<close> is the decision parsed from the provider's reply, and \<open>None\<close> when the
  request, the reply or its parsing fails. \<open>saGetPermission pid\<close> tells whether the
  smart-account service knows a permission under that id, \<open>saExecuteWithPermission to pid\<close>
  is the outcome of its \<open>executeWithPermission\<close> for a transfer to \<open>to\<close> under permission
  \<open>pid\<close>, and \<open>setMonth t n\<close> is the date at \<open>t\<close> after \<open>setMonth(getMonth() + n)\<close>, a matter
  of the local calendar.
\<close>

datatype sa_create_result = CreateOk string | CreateFailed "string option"

datatype sa_exec_result = ExecOk string | ExecFailed "string option"

record World =
  walletConnected :: bool
  smartAccountInitialized :: bool
  saCreatePermission :: sa_create_result
  saGetPermission :: "string \<Rightarrow> bool"
  saExecuteWithPermission :: "string \<Rightarrow> string \<Rightarrow> sa_exec_result"
  dateNow :: int
  randomPermissionId :: string
  randomTxHash :: string
  randomExecutionId :: string
  randomScheduleId :: string
  marketSnapshot :: MarketContext
  gaiaEndpoint :: string
  gaiaApiKey :: string
  gaiaReply :: "AgentDecision option"
  setMonth :: "int \<Rightarrow> jsnum \<Rightarrow> jsdate"

text \<open>\<open>x || d\<close> on an optional string: the default when \<open>x\<close> is undefined or empty.\<close>

definition orElse :: "string option \<Rightarrow> string \<Rightarrow> string" where
  "orElse x d = (case x of None \<Rightarrow> d | Some s \<Rightarrow> if s = [] then d else s)"

section \<open>PermissionManager\<close>

text \<open>A thrown \<open>Error(message)\<close> is \<open>Inl message\<close>.\<close>

definition walletNotConnected :: string where
  "walletNotConnected = ''Wallet not connected. Please connect your wallet to continue.''"

definition isHexDigit :: "char \<Rightarrow> bool" where
  "isHexDigit c = (c \<in> set ''0123456789abcdefABCDEF'')"

definition isValidAddress :: "string \<Rightarrow> bool" where
  "isValidAddress a =
     (case a of
        c0 # c1 # rest \<Rightarrow> c0 = CHR ''0'' \<and> c1 = CHR ''x'' \<and> length rest = 40 \<and> list_all isHexDigit rest
      | _ \<Rightarrow> False)"

definition validatePermissionRequest :: "PermissionRequest \<Rightarrow> string option" where
  "validatePermissionRequest request =
     (if req_tokenAddress request = [] \<or> \<not> isValidAddress (req_tokenAddress request)
      then Some ''Invalid token address''
      else if isNaN (parseFloat (req_maxSpendAmount request))
              \<or> js_le (parseFloat (req_maxSpendAmount request)) (Fin 0)
      then Some ''Invalid spend amount''
      else if req_endTime request \<le> req_startTime request
      then Some ''End time must be after start time''
      else if req_allowedContracts request = []
      then Some ''At least one contract address is required''
      else (case find (\<lambda>address. \<not> isValidAddress address) (req_allowedContracts request) of
              Some address \<Rightarrow> Some (''Invalid contract address: '' @ address)
            | None \<Rightarrow> None))"

definition requestMetaMaskPermission ::
  "World \<Rightarrow> ERC7715Permission \<Rightarrow> string + (string \<times> ERC7715Permission)" where
  "requestMetaMaskPermission w permission =
     (if \<not> smartAccountInitialized w then Inl ''Smart Account not initialized''
      else (case saCreatePermission w of
              CreateFailed e \<Rightarrow> Inl (orElse e ''Permission creation failed'')
            | CreateOk spid \<Rightarrow>
                Inr (randomTxHash w, permission\<lparr>smartAccountPermissionId := Some spid\<rparr>)))"

definition createPermission ::
  "World \<Rightarrow> PermissionManager \<Rightarrow> PermissionRequest
     \<Rightarrow> string + (ERC7715Permission \<times> PermissionManager)" where
  "createPermission w s request =
     (if \<not> walletConnected w then Inl walletNotConnected
      else (case validatePermissionRequest request of
              Some msg \<Rightarrow> Inl msg
            | None \<Rightarrow>
                let pid = randomPermissionId w;
                    permission = \<lparr>tokenAddress = req_tokenAddress request,
                                  maxSpendAmount = req_maxSpendAmount request,
                                  startTime = req_startTime request,
                                  endTime = req_endTime request,
                                  allowedContracts = req_allowedContracts request,
                                  status = Pending,
                                  grantedAt = dateNow w,
                                  transactionHash = None,
                                  smartAccountPermissionId = None\<rparr>
                in (case requestMetaMaskPermission w permission of
                      Inl msg \<Rightarrow> Inl (''Permission creation failed: '' @ msg)
                    | Inr (txh, p1) \<Rightarrow>
                        let p2 = p1\<lparr>transactionHash := Some txh, status := Active\<rparr>
                        in Inr (p2,
                                s\<lparr>permissions := (permissions s)(pid \<mapsto> p2),
                                  spendTracking := (spendTracking s)(pid \<mapsto>
                                    \<lparr>totalSpent = Fin 0,
                                     remainingAllowance = parseFloat (req_maxSpendAmount request),
                                     spendEntries = []\<rparr>)\<rparr>))))"

definition updatePermissionStatus ::
  "World \<Rightarrow> PermissionManager \<Rightarrow> string \<Rightarrow> ERC7715Permission
     \<Rightarrow> ERC7715Permission \<times> PermissionManager" where
  "updatePermissionStatus w s pid permission =
     (if status permission = Revoked then (permission, s)
      else if dateNow w > endTime permission
      then (permission\<lparr>status := Expired\<rparr>,
            s\<lparr>permissions := (permissions s)(pid \<mapsto> permission\<lparr>status := Expired\<rparr>)\<rparr>)
      else (permission, s))"

definition getPermission ::
  "World \<Rightarrow> PermissionManager \<Rightarrow> string \<Rightarrow> ERC7715Permission option \<times> PermissionManager" where
  "getPermission w s pid =
     (case permissions s pid of
        None \<Rightarrow> (None, s)
      | Some permission \<Rightarrow>
          (case updatePermissionStatus w s pid permission of (p', s') \<Rightarrow> (Some p', s')))"

text \<open>
  \<open>getPermissions()\<close> brings the status of every stored permission up to date; of its result
  only the effect on the store is kept here (its one caller below logs the list).
\<close>

definition getPermissions :: "World \<Rightarrow> PermissionManager \<Rightarrow> PermissionManager" where
  "getPermissions w s =
     s\<lparr>permissions := (\<lambda>pid. case permissions s pid of
                                None \<Rightarrow> None
                              | Some permission \<Rightarrow> Some (fst (updatePermissionStatus w s pid permission)))\<rparr>"

definition revokePermission :: "World \<Rightarrow> PermissionManager \<Rightarrow> string \<Rightarrow> string + PermissionManager" where
  "revokePermission w s pid =
     (if \<not> walletConnected w then Inl walletNotConnected
      else (case permissions s pid of
              None \<Rightarrow> Inl ''Permission not found''
            | Some permission \<Rightarrow>
                if status permission \<noteq> Active then Inl ''Can only revoke active permissions''
                else Inr (s\<lparr>permissions := (permissions s)(pid \<mapsto> permission\<lparr>status := Revoked\<rparr>)\<rparr>)))"

definition validateAction ::
  "World \<Rightarrow> PermissionManager \<Rightarrow> string \<Rightarrow> string \<Rightarrow> string \<Rightarrow> string
     \<Rightarrow> bool \<times> PermissionManager" where
  "validateAction w s pid token amt contract =
     (case getPermission w s pid of
        (None, s1) \<Rightarrow> (False, s1)
      | (Some permission, s1) \<Rightarrow>
          if status permission \<noteq> Active then (False, s1)
          else if toLowerCase (tokenAddress permission) \<noteq> toLowerCase token then (False, s1)
          else if \<not> list_ex (\<lambda>addr. toLowerCase addr = toLowerCase contract)
                      (allowedContracts permission)
          then (False, s1)
          else if (case spendTracking s1 pid of
                     None \<Rightarrow> False
                   | Some tracking \<Rightarrow>
                       js_gt (js_add (totalSpent tracking) (parseFloat amt))
                             (parseFloat (maxSpendAmount permission)))
          then (False, s1)
          else if dateNow w < startTime permission \<or> dateNow w > endTime permission
          then (False, s1)
          else (True, s1))"

definition recordSpend ::
  "World \<Rightarrow> PermissionManager \<Rightarrow> string \<Rightarrow> string \<Rightarrow> string \<Rightarrow> string + PermissionManager" where
  "recordSpend w s pid amt txh =
     (case spendTracking s pid of
        None \<Rightarrow> Inl ''Spend tracking not found for permission''
      | Some tracking \<Rightarrow>
          let newTotalSpent = js_add (totalSpent tracking) (parseFloat amt);
              newRemainingAllowance = js_sub (remainingAllowance tracking) (parseFloat amt)
          in Inr (s\<lparr>spendTracking := (spendTracking s)(pid \<mapsto>
                     tracking\<lparr>totalSpent := newTotalSpent,
                              remainingAllowance := newRemainingAllowance,
                              spendEntries := spendEntries tracking @
                                [\<lparr>entry_timestamp = dateNow w,
                                  entry_amount = amt,
                                  entry_transactionHash = txh,
                                  remainingAfter = newRemainingAllowance\<rparr>]\<rparr>)\<rparr>))"

text \<open>\<open>getSpendTracking\<close> reads the ledger of one permission.\<close>

definition getSpendTracking :: "PermissionManager \<Rightarrow> string \<Rightarrow> SpendTracking option" where
  "getSpendTracking s pid = spendTracking s pid"


section \<open>AgentExecutor\<close>

text \<open>
  \<open>activeSchedules\<close> keeps, for a schedule with a pending timer, the delay that timer was
  armed with. What a timer does when it fires is outside this model.
\<close>

record AgentExecutor =
  permissionManager :: PermissionManager
  executions :: "string \<rightharpoonup> AgentExecution"
  scheduledIntents :: "string \<rightharpoonup> AgentIntent"
  activeSchedules :: "string \<rightharpoonup> jsnum"

subsection \<open>Schedules\<close>

text \<open>
  The products are taken from the left, as \<open>interval * 24 * 60 * 60 * 1000\<close> is, each one
  rounded; \<open>60 * 1000\<close> is exact.
\<close>

definition calculateNextExecution :: "World \<Rightarrow> Frequency option \<Rightarrow> jsnum \<Rightarrow> jsdate" where
  "calculateNextExecution w freq n =
     (let now = getTime (DateAt (dateNow w)) in
      case freq of
        Some Minutely \<Rightarrow> newDate (js_add now (js_mul (js_mul n (Fin 60)) (Fin 1000)))
      | Some Hourly \<Rightarrow> newDate (js_add now (js_mul (js_mul (js_mul n (Fin 60)) (Fin 60)) (Fin 1000)))
      | Some Daily \<Rightarrow>
          newDate (js_add now
            (js_mul (js_mul (js_mul (js_mul n (Fin 24)) (Fin 60)) (Fin 60)) (Fin 1000)))
      | Some Weekly \<Rightarrow>
          newDate (js_add now
            (js_mul (js_mul (js_mul (js_mul (js_mul n (Fin 7)) (Fin 24)) (Fin 60)) (Fin 60)) (Fin 1000)))
      | Some Monthly \<Rightarrow> setMonth w (dateNow w) n
      | None \<Rightarrow> newDate (js_add now (Fin 60000)))"

text \<open>
  The regular expression \<open>/every (\d+) (minute|hour|day|week|month)s?/\<close>. \<open>matchHere\<close> tries
  it at the start of the string and gives the two groups; \<open>intervalMatch\<close> is
  \<open>String.prototype.match\<close>, the leftmost position where it matches. The digits are taken
  greedily: what follows them must be a space, so no shorter run of digits can match.
\<close>

definition unitNames :: "string list" where
  "unitNames = [''minute'', ''hour'', ''day'', ''week'', ''month'']"

definition matchHere :: "string \<Rightarrow> (string \<times> string) option" where
  "matchHere s =
     (if startsWith s ''every '' then
        (let r = drop 6 s; ds = takeWhile isDigit r in
           if ds = [] then None
           else (case dropWhile isDigit r of
                   [] \<Rightarrow> None
                 | sp # r' \<Rightarrow>
                     if sp = CHR '' '' then
                       (case find (startsWith r') unitNames of
                          Some u \<Rightarrow> Some (ds, u)
                        | None \<Rightarrow> None)
                     else None))
      else None)"

fun intervalMatch :: "string \<Rightarrow> (string \<times> string) option" where
  "intervalMatch [] = None"
| "intervalMatch (c # cs) =
     (case matchHere (c # cs) of Some groups \<Rightarrow> Some groups | None \<Rightarrow> intervalMatch cs)"

text \<open>\<open>parseInt\<close> on a run of decimal digits: the number they write, rounded to binary64.\<close>

definition parseInt :: "string \<Rightarrow> jsnum" where
  "parseInt ds = round64 (of_int (digitsVal ds))"

definition unitFrequency :: "string \<Rightarrow> Frequency" where
  "unitFrequency u =
     (if u = ''minute'' then Minutely
      else if u = ''hour'' then Hourly
      else if u = ''day'' then Daily
      else if u = ''week'' then Weekly
      else if u = ''month'' then Monthly
      else Daily)"

definition parseScheduleFromDescription :: "World \<Rightarrow> string \<Rightarrow> AgentSchedule" where
  "parseScheduleFromDescription w desc =
     (let lowerDesc = toLowerCase desc in
      if str_includes lowerDesc ''every minute'' \<or> str_includes lowerDesc ''per minute'' then
        \<lparr>sched_type = Recurring, frequency = Some Minutely, interval = Some (Fin 1),
         nextExecution = Some (calculateNextExecution w (Some Minutely) (Fin 1)), isActive = True\<rparr>
      else if str_includes lowerDesc ''daily'' \<or> str_includes lowerDesc ''every day'' then
        \<lparr>sched_type = Recurring, frequency = Some Daily, interval = Some (Fin 1),
         nextExecution = Some (calculateNextExecution w (Some Daily) (Fin 1)), isActive = True\<rparr>
      else if str_includes lowerDesc ''weekly'' \<or> str_includes lowerDesc ''every week'' then
        \<lparr>sched_type = Recurring, frequency = Some Weekly, interval = Some (Fin 1),
         nextExecution = Some (calculateNextExecution w (Some Weekly) (Fin 1)), isActive = True\<rparr>
      else if str_includes lowerDesc ''hourly'' \<or> str_includes lowerDesc ''every hour'' then
        \<lparr>sched_type = Recurring, frequency = Some Hourly, interval = Some (Fin 1),
         nextExecution = Some (calculateNextExecution w (Some Hourly) (Fin 1)), isActive = True\<rparr>
      else if str_includes lowerDesc ''monthly'' \<or> str_includes lowerDesc ''every month'' then
        \<lparr>sched_type = Recurring, frequency = Some Monthly, interval = Some (Fin 1),
         nextExecution = Some (calculateNextExecution w (Some Monthly) (Fin 1)), isActive = True\<rparr>
      else
        (case intervalMatch lowerDesc of
           Some (g1, g2) \<Rightarrow>
             \<lparr>sched_type = Recurring, frequency = Some (unitFrequency g2),
              interval = Some (parseInt g1),
              nextExecution = Some (calculateNextExecution w (Some (unitFrequency g2)) (parseInt g1)),
              isActive = True\<rparr>
         | None \<Rightarrow>
             \<lparr>sched_type = Once, frequency = None, interval = None, nextExecution = None,
              isActive = False\<rparr>))"

definition scheduleRecurringIntent :: "World \<Rightarrow> AgentExecutor \<Rightarrow> AgentIntent \<Rightarrow> AgentExecutor" where
  "scheduleRecurringIntent w ex intent =
     (case schedule intent of
        None \<Rightarrow> ex
      | Some sch \<Rightarrow>
          if sched_type sch \<noteq> Recurring \<or> frequency sch = None then ex
          else
            let scheduleId = randomScheduleId w;
                ex1 = ex\<lparr>scheduledIntents := (scheduledIntents ex)(scheduleId \<mapsto> intent)\<rparr>;
                timeUntilNext = (case nextExecution sch of
                                   Some d \<Rightarrow> js_sub (getTime d) (Fin (of_int (dateNow w)))
                                 | None \<Rightarrow> Fin 0)
            in if js_gt timeUntilNext (Fin 0)
               then ex1\<lparr>activeSchedules := (activeSchedules ex1)(scheduleId \<mapsto> timeUntilNext)\<rparr>
               else ex1)"

subsection \<open>Decisions\<close>

definition fallbackDecisionMaking :: "AgentIntent \<Rightarrow> MarketContext \<Rightarrow> AgentDecision" where
  "fallbackDecisionMaking intent context =
     (let gas = parseFloat (gasPrice context);
          amt = parseFloat (amount intent);
          d0 = \<lparr>shouldExecute = True,
                reasoning = ''Conditions are favorable for execution'',
                confidence = 80,
                riskAssessment = ''low''\<rparr>;
          d1 = (if js_gt gas (Fin 50)
                then \<lparr>shouldExecute = False,
                      reasoning = ''Gas price too high for efficient execution'',
                      confidence = 90,
                      riskAssessment = ''high - expensive gas fees''\<rparr>
                else d0);
          d2 = (if js_gt amt (Fin 100)
                then d1\<lparr>confidence := Math_max (confidence d1 - 20) 50,
                        riskAssessment := ''medium - large transaction amount''\<rparr>
                else d1);
          d3 = (if networkCongestion context = High
                then \<lparr>shouldExecute = False,
                      reasoning = ''Network congestion too high, transaction may fail or be expensive'',
                      confidence = 85,
                      riskAssessment = ''high - network congestion''\<rparr>
                else d2)
      in d3)"

text \<open>
  With an endpoint and a key, \<open>queryGaiaLLM\<close> reads the permission (which brings its status up
  to date) and the ledger for the prompt, and returns the provider's decision; every failure
  on that path ends in the fallback.
\<close>

definition queryGaiaLLM ::
  "World \<Rightarrow> PermissionManager \<Rightarrow> AgentIntent \<Rightarrow> MarketContext \<Rightarrow> AgentDecision \<times> PermissionManager" where
  "queryGaiaLLM w pm intent context =
     (if gaiaEndpoint w = [] \<or> gaiaApiKey w = [] then (fallbackDecisionMaking intent context, pm)
      else (case getPermission w pm (permissionId intent) of
              (permission, pm1) \<Rightarrow>
                (case gaiaReply w of
                   Some d \<Rightarrow> (d, pm1)
                 | None \<Rightarrow> (fallbackDecisionMaking intent context, pm1))))"

subsection \<open>Execution\<close>

text \<open>\<open>TransactionService.executeTransaction\<close> for the transfer request built by \<open>createETHTransfer\<close>.\<close>

definition transactionService_executeTransaction :: "World \<Rightarrow> string \<Rightarrow> string \<Rightarrow> string + string" where
  "transactionService_executeTransaction w to pid =
     (if \<not> smartAccountInitialized w then Inl ''Smart Account not initialized''
      else (case saExecuteWithPermission w to pid of
              ExecFailed e \<Rightarrow>
                Inl (''Gasless transaction failed: '' @ orElse e ''Gasless transaction failed'')
            | ExecOk txHash \<Rightarrow> Inr txHash))"

text \<open>
  The id under which the smart-account service knows the permission: the linked id when it is
  known there, else the permission's own id, else an error.
\<close>

definition findSmartAccountPermission :: "World \<Rightarrow> ERC7715Permission \<Rightarrow> string \<Rightarrow> string + string" where
  "findSmartAccountPermission w permission pid =
     (let smartAccountPermissionId = orElse (smartAccountPermissionId permission) pid in
      if saGetPermission w smartAccountPermissionId then Inr smartAccountPermissionId
      else if saGetPermission w pid then Inr pid
      else Inl (''Smart Account permission not found: '' @ smartAccountPermissionId))"

text \<open>
  The \<open>try\<close> block of \<open>executeTransaction\<close>: the message thrown, if any, the execution object
  as it stands at that moment, and the permission store.
\<close>

definition executeTransaction_try ::
  "World \<Rightarrow> PermissionManager \<Rightarrow> AgentExecution
     \<Rightarrow> string option \<times> AgentExecution \<times> PermissionManager" where
  "executeTransaction_try w pm execution =
     (let intent = exec_intent execution; pid = permissionId intent in
      case getPermission w pm pid of
        (None, pm1) \<Rightarrow> (Some (''Permission not found: '' @ pid), execution, getPermissions w pm1)
      | (Some permission, pm1) \<Rightarrow>
          if \<not> smartAccountInitialized w
          then (Some ''Smart Account not initialized'', execution, pm1)
          else
            (case findSmartAccountPermission w permission pid of
               Inl msg \<Rightarrow> (Some msg, execution, pm1)
             | Inr actualPermissionId \<Rightarrow>
                 (case transactionService_executeTransaction w (contractAddress intent) actualPermissionId of
                    Inl msg \<Rightarrow> (Some msg, execution, pm1)
                  | Inr hash \<Rightarrow>
                      let execution1 = execution
                            \<lparr>exec_transactionHash := Some hash,
                             exec_status := Executed,
                             gasUsed := Some ''0'',
                             explanation := ''Successfully executed gasless transaction: ''
                                            @ reasoning (decision execution)\<rparr>
                      in (case recordSpend w pm1 pid (amount intent) hash of
                            Inl msg \<Rightarrow> (Some msg, execution1, pm1)
                          | Inr pm2 \<Rightarrow> (None, execution1, pm2)))))"

definition executeTransaction ::
  "World \<Rightarrow> PermissionManager \<Rightarrow> AgentExecution
     \<Rightarrow> string option \<times> AgentExecution \<times> PermissionManager" where
  "executeTransaction w pm execution =
     (case executeTransaction_try w pm execution of
        (None, execution1, pm1) \<Rightarrow> (None, execution1, pm1)
      | (Some msg, execution1, pm1) \<Rightarrow>
          (Some msg,
           execution1\<lparr>exec_status := Failed,
                      error := Some msg,
                      explanation := ''Gasless transaction failed: '' @ msg\<rparr>,
           pm1))"

definition frequencyName :: "Frequency \<Rightarrow> string" where
  "frequencyName f =
     (case f of Minutely \<Rightarrow> ''minutely'' | Hourly \<Rightarrow> ''hourly'' | Daily \<Rightarrow> ''daily''
      | Weekly \<Rightarrow> ''weekly'' | Monthly \<Rightarrow> ''monthly'')"

definition boundaryReasoning :: string where
  "boundaryReasoning = ''The requested action would violate one or more permission constraints (spend limit, time window, or contract restrictions)''"

definition processIntent :: "World \<Rightarrow> AgentExecutor \<Rightarrow> AgentIntent \<Rightarrow> AgentExecution \<times> AgentExecutor" where
  "processIntent w ex intent0 =
     (if \<not> walletConnected w then
        (let execution =
               \<lparr>exec_id = randomExecutionId w,
                exec_intent = intent0,
                decision = \<lparr>shouldExecute = False, reasoning = ''Wallet not connected'',
                            confidence = 0, riskAssessment = ''high''\<rparr>,
                exec_status = Failed,
                exec_transactionHash = None,
                exec_timestamp = dateNow w,
                explanation = ''Cannot execute: Wallet not connected. Please connect your wallet first.'',
                gasUsed = None,
                error = Some ''Wallet not connected''\<rparr>
         in (execution, ex\<lparr>executions := (executions ex)(exec_id execution \<mapsto> execution)\<rparr>))
      else
        (let executionId = randomExecutionId w;
             sch = parseScheduleFromDescription w (description intent0);
             intent = intent0\<lparr>schedule := Some sch\<rparr>;
             execution =
               \<lparr>exec_id = executionId,
                exec_intent = intent,
                decision = \<lparr>shouldExecute = False, reasoning = [], confidence = 0, riskAssessment = []\<rparr>,
                exec_status = ExecPending,
                exec_transactionHash = None,
                exec_timestamp = dateNow w,
                explanation = [],
                gasUsed = None,
                error = None\<rparr>;
             scheduled =
               (case frequency sch of
                  Some f \<Rightarrow>
                    if sched_type sch = Recurring
                    then (scheduleRecurringIntent w ex intent,
                          execution\<lparr>explanation := ''Scheduled to run '' @ frequencyName f
                                       @ ''. First execution will be evaluated now.''\<rparr>)
                    else (ex, execution)
                | None \<Rightarrow> (ex, execution));
             ex1 = fst scheduled;
             execution1 = snd scheduled
         in case validateAction w (permissionManager ex1) (permissionId intent)
                   (intent_tokenAddress intent) (amount intent) (contractAddress intent) of
              (False, pm1) \<Rightarrow>
                (let blocked = execution1
                       \<lparr>exec_status := Blocked,
                        explanation := ''Action blocked: Exceeds permission boundaries'',
                        decision := (decision execution1)\<lparr>reasoning := boundaryReasoning\<rparr>\<rparr>
                 in (blocked, ex1\<lparr>permissionManager := pm1,
                                  executions := (executions ex1)(executionId \<mapsto> blocked)\<rparr>))
            | (True, pm1) \<Rightarrow>
                (case queryGaiaLLM w pm1 intent (marketSnapshot w) of
                   (d, pm2) \<Rightarrow>
                     let execution2 = execution1\<lparr>decision := d\<rparr> in
                     if shouldExecute d then
                       (case executeTransaction w pm2 execution2 of
                          (None, execution3, pm3) \<Rightarrow>
                            (execution3, ex1\<lparr>permissionManager := pm3,
                                             executions := (executions ex1)(executionId \<mapsto> execution3)\<rparr>)
                        | (Some msg, execution3, pm3) \<Rightarrow>
                            (let failed = execution3
                                   \<lparr>exec_status := Failed,
                                    error := Some msg,
                                    explanation := ''Execution failed: '' @ msg\<rparr>
                             in (failed, ex1\<lparr>permissionManager := pm3,
                                             executions := (executions ex1)(executionId \<mapsto> failed)\<rparr>)))
                     else
                       (let declined = execution2
                              \<lparr>exec_status := Blocked,
                               explanation := ''Agent declined to execute: '' @ reasoning d\<rparr>
                        in (declined, ex1\<lparr>permissionManager := pm2,
                                          executions := (executions ex1)(executionId \<mapsto> declined)\<rparr>)))))"

definition executeIntentDirectly ::
  "World \<Rightarrow> AgentExecutor \<Rightarrow> AgentIntent \<Rightarrow> AgentExecution \<times> AgentExecutor" where
  "executeIntentDirectly w ex intent =
     (if \<not> walletConnected w then
        (let execution =
               \<lparr>exec_id = randomExecutionId w,
                exec_intent = intent,
                decision = \<lparr>shouldExecute = False, reasoning = ''Wallet not connected'',
                            confidence = 0, riskAssessment = ''high''\<rparr>,
                exec_status = Failed,
                exec_transactionHash = None,
                exec_timestamp = dateNow w,
                explanation = ''Cannot execute scheduled intent: Wallet not connected.'',
                gasUsed = None,
                error = Some ''Wallet not connected''\<rparr>
         in (execution, ex\<lparr>executions := (executions ex)(exec_id execution \<mapsto> execution)\<rparr>))
      else
        (let executionId = randomExecutionId w;
             execution =
               \<lparr>exec_id = executionId,
                exec_intent = intent,
                decision = \<lparr>shouldExecute = False, reasoning = [], confidence = 0, riskAssessment = []\<rparr>,
                exec_status = ExecPending,
                exec_transactionHash = None,
                exec_timestamp = dateNow w,
                explanation = [],
                gasUsed = None,
                error = None\<rparr>
         in case validateAction w (permissionManager ex) (permissionId intent)
                   (intent_tokenAddress intent) (amount intent) (contractAddress intent) of
              (False, pm1) \<Rightarrow>
                (let blocked = execution
                       \<lparr>exec_status := Blocked,
                        explanation := ''Action blocked: Exceeds permission boundaries'',
                        decision := (decision execution)\<lparr>reasoning := boundaryReasoning\<rparr>\<rparr>
                 in (blocked, ex\<lparr>permissionManager := pm1,
                                 executions := (executions ex)(executionId \<mapsto> blocked)\<rparr>))
            | (True, pm1) \<Rightarrow>
                (case queryGaiaLLM w pm1 intent (marketSnapshot w) of
                   (d, pm2) \<Rightarrow>
                     let execution2 = execution\<lparr>decision := d\<rparr> in
                     if shouldExecute d then
                       (case executeTransaction w pm2 execution2 of
                          (None, execution3, pm3) \<Rightarrow>
                            (execution3, ex\<lparr>permissionManager := pm3,
                                            executions := (executions ex)(executionId \<mapsto> execution3)\<rparr>)
                        | (Some msg, execution3, pm3) \<Rightarrow>
                            (let failed = execution3
                                   \<lparr>exec_status := Failed,
                                    error := Some msg,
                                    explanation := ''Execution failed: '' @ msg\<rparr>
                             in (failed, ex\<lparr>permissionManager := pm3,
                                            executions := (executions ex)(executionId \<mapsto> failed)\<rparr>)))
                     else
                       (let declined = execution2
                              \<lparr>exec_status := Blocked,
                               explanation := ''Agent declined to execute: '' @ reasoning d\<rparr>
                        in (declined, ex\<lparr>permissionManager := pm2,
                                         executions := (executions ex)(executionId \<mapsto> declined)\<rparr>)))))"


section \<open>Runs and sample data\<close>

text \<open>
  A sequence of \<open>recordSpend\<close> calls, each with the world it runs in. A call that throws
  leaves the store as it was, and the caller goes on.
\<close>

fun recordSpends ::
  "PermissionManager \<Rightarrow> (World \<times> string \<times> string \<times> string) list \<Rightarrow> PermissionManager" where
  "recordSpends s [] = s"
| "recordSpends s ((w, pid, amt, txh) # calls) =
     recordSpends (case recordSpend w s pid amt txh of Inl msg \<Rightarrow> s | Inr s' \<Rightarrow> s') calls"

text \<open>\<open>2^-1075\<close>, half the least subnormal number: the most a rounding to a subnormal is off by.\<close>

definition halfLeastSubnormal :: rat where
  "halfLeastSubnormal = 1 / 2 ^ 1075"

text \<open>
  The ledger invariant with its tolerance: the three numbers are finite and
  \<open>totalSpent + remainingAllowance\<close> differs from \<open>maxSpendAmount\<close> by at most \<open>tol\<close>.
\<close>

fun gapWithin :: "rat \<Rightarrow> jsnum \<Rightarrow> jsnum \<Rightarrow> jsnum \<Rightarrow> bool" where
  "gapWithin tol (Fin t) (Fin r) (Fin m) = (\<bar>t + r - m\<bar> \<le> tol)"
| "gapWithin tol t r m = False"

definition ledgerBalanced :: "PermissionManager \<Rightarrow> string \<Rightarrow> bool" where
  "ledgerBalanced s pid =
     (case spendTracking s pid of
        None \<Rightarrow> False
      | Some tracking \<Rightarrow>
          (case permissions s pid of
             None \<Rightarrow> False
           | Some permission \<Rightarrow>
               gapWithin (1 / 1000000) (totalSpent tracking) (remainingAllowance tracking)
                 (parseFloat (maxSpendAmount permission))))"

text \<open>
  A run of \<open>recordSpend\<close> calls keeps the ledger of \<open>pid\<close> within \<open>B\<close>: after every call both
  \<open>totalSpent\<close> and \<open>remainingAllowance\<close> are finite and at most \<open>B\<close> in absolute value.
\<close>

fun magnitudeWithin :: "rat \<Rightarrow> jsnum \<Rightarrow> bool" where
  "magnitudeWithin B (Fin v) = (\<bar>v\<bar> \<le> B)"
| "magnitudeWithin B x = False"

definition ledgerWithin :: "rat \<Rightarrow> SpendTracking option \<Rightarrow> bool" where
  "ledgerWithin B l =
     (case l of
        None \<Rightarrow> False
      | Some tracking \<Rightarrow>
          magnitudeWithin B (totalSpent tracking) \<and> magnitudeWithin B (remainingAllowance tracking))"

fun boundedRun ::
  "rat \<Rightarrow> string \<Rightarrow> PermissionManager \<Rightarrow> (World \<times> string \<times> string \<times> string) list \<Rightarrow> bool" where
  "boundedRun B pid s [] = True"
| "boundedRun B pid s ((w, p, amt, txh) # calls) =
     (ledgerWithin B
        (spendTracking (case recordSpend w s p amt txh of Inl msg \<Rightarrow> s | Inr s' \<Rightarrow> s') pid)
      \<and> boundedRun B pid (case recordSpend w s p amt txh of Inl msg \<Rightarrow> s | Inr s' \<Rightarrow> s') calls)"

text \<open>
  An occurrence of \<open>every N <unit>\<close> in a string: the word \<open>every\<close>, a space, a non-empty
  run of decimal digits \<open>n\<close>, a space and one of the unit names \<open>u\<close>.
\<close>

definition everyPattern :: "string \<Rightarrow> string \<Rightarrow> string \<Rightarrow> bool" where
  "everyPattern s n u =
     ((\<exists>pre post. s = pre @ ''every '' @ n @ '' '' @ u @ post)
      \<and> n \<noteq> [] \<and> list_all isDigit n \<and> u \<in> set unitNames)"

text \<open>The active recurring schedule of frequency \<open>f\<close> and interval \<open>n\<close>, and the one-off schedule.\<close>

definition recurringEvery :: "World \<Rightarrow> Frequency \<Rightarrow> jsnum \<Rightarrow> AgentSchedule" where
  "recurringEvery w f n =
     \<lparr>sched_type = Recurring, frequency = Some f, interval = Some n,
      nextExecution = Some (calculateNextExecution w (Some f) n), isActive = True\<rparr>"

definition onceSchedule :: AgentSchedule where
  "onceSchedule =
     \<lparr>sched_type = Once, frequency = None, interval = None, nextExecution = None, isActive = False\<rparr>"

definition sampleToken :: string where
  "sampleToken = ''0x4752ba5dbc23f44d87826276bf6fd6b1c372ad24''"

definition sampleContract :: string where
  "sampleContract = ''0x1111111111111111111111111111111111111111''"

definition sampleRequest :: PermissionRequest where
  "sampleRequest =
     \<lparr>req_tokenAddress = sampleToken, req_maxSpendAmount = ''100'',
      req_startTime = 1000, req_endTime = 5000, req_allowedContracts = [sampleContract]\<rparr>"

definition sampleMarket :: MarketContext where
  "sampleMarket = \<lparr>gasPrice = ''20.0'', tokenPrice = ''1800.00'', networkCongestion = Low,
                   mc_timestamp = 2000\<rparr>"

definition sampleWorld :: World where
  "sampleWorld =
     \<lparr>walletConnected = True,
      smartAccountInitialized = True,
      saCreatePermission = CreateOk ''perm_1'',
      saGetPermission = (\<lambda>pid. pid = ''perm_1''),
      saExecuteWithPermission = (\<lambda>to pid. ExecOk ''0xfeed''),
      dateNow = 2000,
      randomPermissionId = ''perm_1'',
      randomTxHash = ''0xgrant'',
      randomExecutionId = ''exec_1'',
      randomScheduleId = ''schedule_1'',
      marketSnapshot = sampleMarket,
      gaiaEndpoint = [],
      gaiaApiKey = [],
      gaiaReply = None,
      setMonth = (\<lambda>t n. newDate (js_add (Fin (of_int t)) (js_mul n (Fin 2592000000))))\<rparr>"

definition emptyManager :: PermissionManager where
  "emptyManager = \<lparr>permissions = Map.empty, spendTracking = Map.empty\<rparr>"

definition samplePermission :: ERC7715Permission where
  "samplePermission =
     \<lparr>tokenAddress = sampleToken, maxSpendAmount = ''100'', startTime = 1000, endTime = 5000,
      allowedContracts = [sampleContract], status = Active, grantedAt = 2000,
      transactionHash = Some ''0xgrant'', smartAccountPermissionId = Some ''perm_1''\<rparr>"

definition sampleManager :: PermissionManager where
  "sampleManager =
     \<lparr>permissions = [''perm_1'' \<mapsto> samplePermission],
      spendTracking = [''perm_1'' \<mapsto>
        \<lparr>totalSpent = Fin 0, remainingAllowance = Fin 100, spendEntries = []\<rparr>]\<rparr>"


text \<open>The sample world after the permission's end time, and with the wallet disconnected.\<close>

definition lateWorld :: World where
  "lateWorld = sampleWorld\<lparr>dateNow := 6000\<rparr>"

definition disconnectedWorld :: World where
  "disconnectedWorld = sampleWorld\<lparr>walletConnected := False\<rparr>"

text \<open>The sample world at the last instant a \<open>Date\<close> can hold.\<close>

definition lastDayWorld :: World where
  "lastDayWorld = sampleWorld\<lparr>dateNow := 8640000000000000\<rparr>"


definition sampleIntent :: AgentIntent where
  "sampleIntent =
     \<lparr>description = ''swap every 3 days'', intent_tokenAddress = sampleToken, amount = ''40'',
      contractAddress = sampleContract, permissionId = ''perm_1'', schedule = None\<rparr>"

definition largeIntent :: AgentIntent where
  "largeIntent = sampleIntent\<lparr>description := ''swap once'', amount := ''150''\<rparr>"

definition hotMarket :: MarketContext where
  "hotMarket = sampleMarket\<lparr>gasPrice := ''60''\<rparr>"

definition congestedMarket :: MarketContext where
  "congestedMarket = sampleMarket\<lparr>gasPrice := ''60'', networkCongestion := High\<rparr>"

definition sampleExecutor :: AgentExecutor where
  "sampleExecutor =
     \<lparr>permissionManager = sampleManager, executions = Map.empty, scheduledIntents = Map.empty,
      activeSchedules = Map.empty\<rparr>"

text \<open>
  The sample permission with a limit of \<open>1e17\<close>, as \<open>createPermission\<close> stores it, and the
  store after a spend of \<open>1e16\<close> against it.
\<close>

definition bigRequest :: PermissionRequest where
  "bigRequest = sampleRequest\<lparr>req_maxSpendAmount := ''1e17''\<rparr>"

definition bigPermission :: ERC7715Permission where
  "bigPermission = samplePermission\<lparr>maxSpendAmount := ''1e17''\<rparr>"

definition bigManager :: PermissionManager where
  "bigManager =
     \<lparr>permissions = [''perm_1'' \<mapsto> bigPermission],
      spendTracking = [''perm_1'' \<mapsto>
        \<lparr>totalSpent = Fin 0, remainingAllowance = Fin 100000000000000000, spendEntries = []\<rparr>]\<rparr>"




text \<open>The sample permission with a limit of \<open>0.3\<close>, after a spend of \<open>0.1\<close>.\<close>

definition dimeManager :: PermissionManager where
  "dimeManager =
     \<lparr>permissions = [''perm_1'' \<mapsto> samplePermission\<lparr>maxSpendAmount := ''0.3''\<rparr>],
      spendTracking = [''perm_1'' \<mapsto>
        \<lparr>totalSpent = parseFloat ''0.1'', remainingAllowance = js_sub (parseFloat ''0.3'') (parseFloat ''0.1''),
         spendEntries = []\<rparr>]\<rparr>"


text \<open>The sample world with a smart-account service that refuses the transaction.\<close>

definition failingWorld :: World where
  "failingWorld = sampleWorld\<lparr>saExecuteWithPermission := (\<lambda>to pid. ExecFailed (Some ''bundler rejected''))\<rparr>"

section \<open>Properties\<close>

subsection \<open>Binary64 rounding\<close>

lemma bitlen_rat_bounds:
  assumes "0 < n"
  shows "(2::rat) powi (bitlen n - 1) \<le> of_int n" and "of_int n < (2::rat) powi (bitlen n)"
proof -
  have l: "1 \<le> bitlen n"
    using assms bitlen_eq_zero_iff[of n] bitlen_nonneg[of n] by linarith
  have "(of_int (2 ^ nat (bitlen n - 1)) :: rat) \<le> of_int n"
    using bitlen_bounds[OF assms] by (simp only: of_int_le_iff)
  then show "(2::rat) powi (bitlen n - 1) \<le> of_int n"
    using l by (simp add: power_int_def)
  have "(of_int n :: rat) < of_int (2 ^ nat (bitlen n))"
    using bitlen_bounds[OF assms] by (simp only: of_int_less_iff)
  then show "of_int n < (2::rat) powi (bitlen n)"
    using l by (simp add: power_int_def)
qed

lemma pow2_add: "(2::rat) powi (a + b) = 2 powi a * 2 powi b"
  by (simp add: power_int_add)

lemma pow2_le_iff: "(2::rat) powi a \<le> 2 powi b \<longleftrightarrow> a \<le> b"
proof
  assume "(2::rat) powi a \<le> 2 powi b"
  then show "a \<le> b"
    using power_int_strict_increasing[of b a "2::rat"] by (cases "a \<le> b") auto
next
  assume "a \<le> b"
  then show "(2::rat) powi a \<le> 2 powi b"
    by (intro power_int_increasing) auto
qed

lemma pow2_less_iff: "(2::rat) powi a < 2 powi b \<longleftrightarrow> a < b"
  using pow2_le_iff[of b a] by (auto simp: not_le[symmetric])

lemma ilog2_bounds:
  assumes "0 < x"
  shows "2 powi (ilog2 x) \<le> x" and "x < 2 powi (ilog2 x + 1)"
proof -
  obtain p q where pq: "quotient_of x = (p, q)" by (cases "quotient_of x")
  then have q: "0 < q" and x: "x = of_int p / of_int q"
    using quotient_of_denom_pos quotient_of_div by auto
  with assms have p: "0 < p"
    by (simp add: zero_less_divide_iff)
  let ?k = "bitlen p - bitlen q"
  note rp = bitlen_rat_bounds[OF p]
  note rq = bitlen_rat_bounds[OF q]
  have qpos: "(0::rat) < of_int q" using q by simp
  have lo: "(2::rat) powi (?k - 1) < x"
  proof -
    have "(2::rat) powi (?k - 1) * of_int q < 2 powi (?k - 1) * 2 powi (bitlen q)"
      using rq(2) by (simp add: mult_strict_left_mono)
    also have "\<dots> = 2 powi (bitlen p - 1)"
      by (simp flip: pow2_add)
    also have "\<dots> \<le> of_int p" by (rule rp(1))
    finally show ?thesis
      using qpos by (simp add: x pos_less_divide_eq)
  qed
  have hi: "x < (2::rat) powi (?k + 1)"
  proof -
    have "of_int p < (2::rat) powi (bitlen p)" by (rule rp(2))
    also have "\<dots> = 2 powi (?k + 1) * 2 powi (bitlen q - 1)"
      by (simp flip: pow2_add)
    also have "\<dots> \<le> 2 powi (?k + 1) * of_int q"
      using rq(1) by (simp add: mult_left_mono)
    finally show ?thesis
      using qpos by (simp add: x pos_divide_less_eq)
  qed
  show "2 powi (ilog2 x) \<le> x"
    using lo by (auto simp: ilog2_def ilog2_from_def pq)
  show "x < 2 powi (ilog2 x + 1)"
    using hi by (auto simp: ilog2_def ilog2_from_def pq not_le)
qed

lemma overflowThreshold_eq: "overflowThreshold = 2 ^ 1024"
  by (simp add: overflowThreshold_def)


lemma roundHalfEven_error: "\<bar>of_int (roundHalfEven m) - m\<bar> \<le> 1 / 2"
proof -
  have "of_int \<lfloor>m\<rfloor> \<le> m" "m < of_int \<lfloor>m\<rfloor> + 1"
    by linarith+
  then show ?thesis
    by (auto simp: roundHalfEven_def roundTo_def abs_le_iff)
qed

lemma roundHalfEven_of_int: "roundHalfEven (of_int k) = k"
  by (simp add: roundHalfEven_def roundTo_def)

lemma roundHalfEven_ge:
  assumes "of_int k \<le> m"
  shows "k \<le> roundHalfEven m"
proof -
  from assms have "k \<le> \<lfloor>m\<rfloor>" by (simp add: le_floor_iff)
  then show ?thesis
    by (auto simp: roundHalfEven_def roundTo_def)
qed

lemma quantize_error:
  assumes "0 < q"
  shows "\<bar>quantize q a - a\<bar> \<le> q / 2"
proof -
  have "quantize q a - a = (of_int (roundHalfEven (a / q)) - a / q) * q"
    using assms by (simp add: quantize_def algebra_simps)
  then have "\<bar>quantize q a - a\<bar> = \<bar>of_int (roundHalfEven (a / q)) - a / q\<bar> * q"
    using assms by (simp add: abs_mult)
  also have "\<dots> \<le> (1 / 2) * q"
    using roundHalfEven_error[of "a / q"] assms by (intro mult_right_mono) auto
  finally show ?thesis by simp
qed

lemma quantize_ge:
  assumes "0 < q" "of_int k * q \<le> a"
  shows "of_int k * q \<le> quantize q a"
proof -
  from assms have "of_int k \<le> a / q"
    by (simp add: pos_le_divide_eq)
  then have "k \<le> roundHalfEven (a / q)" by (rule roundHalfEven_ge)
  then have "(of_int k :: rat) \<le> of_int (roundHalfEven (a / q))" by simp
  then show ?thesis
    using assms(1) by (simp add: quantize_def mult_right_mono)
qed

text \<open>The rounding error of a finite result, relative to that result.\<close>

lemma quantize_relative_error:
  assumes "0 < a"
  shows "\<bar>quantize (2 powi (max (ilog2 a) (- 1022) - 52)) a - a\<bar>
           \<le> quantize (2 powi (max (ilog2 a) (- 1022) - 52)) a / 2 ^ 53 + 1 / 2 ^ 1075"
    and "0 \<le> quantize (2 powi (max (ilog2 a) (- 1022) - 52)) a"
proof -
  let ?e = "max (ilog2 a) (- 1022)"
  let ?q = "(2::rat) powi (?e - 52)"
  let ?v = "quantize ?q a"
  have q: "0 < ?q" by simp
  have err: "\<bar>?v - a\<bar> \<le> ?q / 2" by (rule quantize_error[OF q])
  have "of_int 0 * ?q \<le> ?v"
    using assms by (intro quantize_ge[OF q]) simp
  then show nonneg: "0 \<le> ?v" by simp
  show "\<bar>?v - a\<bar> \<le> ?v / 2 ^ 53 + 1 / 2 ^ 1075"
  proof (cases "- 1022 \<le> ilog2 a")
    case True
    then have e: "?e = ilog2 a" by simp
    have "of_int (2 ^ 52) * ?q = 2 powi (ilog2 a)"
      unfolding e by (simp add: power_int_diff)
    also have "\<dots> \<le> a" by (rule ilog2_bounds(1)[OF assms])
    finally have "of_int (2 ^ 52) * ?q \<le> ?v"
      by (rule quantize_ge[OF q])
    then have "?q / 2 \<le> ?v / 2 ^ 53" by simp
    with err have "\<bar>?v - a\<bar> \<le> ?v / 2 ^ 53" by (rule order_trans)
    moreover have "(0::rat) \<le> 1 / 2 ^ 1075" by simp
    ultimately show ?thesis by (rule add_increasing2[rotated])
  next
    case False
    then have "?e = - 1022" by simp
    then have "?q / 2 = 1 / 2 ^ 1075"
      by (simp add: power_int_def field_simps)
    with err have "\<bar>?v - a\<bar> \<le> 1 / 2 ^ 1075" by simp
    moreover have "0 \<le> ?v / 2 ^ 53" using nonneg by simp
    ultimately show ?thesis by (rule add_increasing[rotated])
  qed
qed

lemma round64_error_raw:
  assumes "round64 x = Fin v"
  shows "\<bar>v - x\<bar> \<le> \<bar>v\<bar> / 2 ^ 53 + 1 / 2 ^ 1075"
proof (cases "x = 0")
  case True
  with assms show ?thesis by (simp add: round64_def)
next
  case False
  let ?a = "\<bar>x\<bar>"
  let ?v = "quantize (2 powi (max (ilog2 ?a) (- 1022) - 52)) ?a"
  from False have a: "0 < ?a" by simp
  note b = quantize_relative_error[OF a]
  from assms False have v: "v = (if 0 < x then ?v else - ?v)"
    by (auto simp: round64_def overflow_def split: if_splits)
  show ?thesis
  proof (cases "0 < x")
    case True
    with v b show ?thesis by simp
  next
    case neg: False
    with v have "v = - ?v" by simp
    moreover from neg False have "?a = - x" by simp
    ultimately have "\<bar>v - x\<bar> = \<bar>?v - ?a\<bar>" "\<bar>v\<bar> = ?v"
      using b(2) by simp_all
    with b(1) show ?thesis by simp
  qed
qed

lemma round64_error:
  assumes "round64 x = Fin v"
  shows "\<bar>v - x\<bar> \<le> \<bar>v\<bar> / 2 ^ 53 + halfLeastSubnormal"
  using round64_error_raw[OF assms] by (simp only: halfLeastSubnormal_def)

lemma halfLeastSubnormal_bounds: "0 \<le> halfLeastSubnormal" "halfLeastSubnormal \<le> 1 / 2 ^ 53"
  by (simp_all add: halfLeastSubnormal_def field_simps)

lemma round64_not_NaN: "round64 x \<noteq> NaN"
  by (simp add: round64_def overflow_def)

text \<open>Integers up to \<open>2^53\<close> in absolute value are binary64 numbers.\<close>

lemma round64_of_int:
  assumes "\<bar>k\<bar> \<le> 2 ^ 53"
  shows "round64 (of_int k) = Fin (of_int k)"
proof (cases "k = 0")
  case True
  then show ?thesis by (simp add: round64_def)
next
  case False
  let ?a = "\<bar>of_int k :: rat\<bar>"
  let ?e = "ilog2 ?a"
  have a1: "1 \<le> ?a" using False by (simp flip: of_int_abs)
  then have a: "0 < ?a" by linarith
  have a53: "?a \<le> 2 ^ 53"
    using assms by (metis of_int_abs of_int_le_iff of_int_numeral of_int_power)
  have "(2::rat) powi 0 < 2 powi (?e + 1)"
    using a1 ilog2_bounds(2)[OF a] by simp
  then have lo: "0 \<le> ?e" by (simp only: pow2_less_iff)
  have "(2::rat) powi ?e \<le> 2 powi 53"
    using ilog2_bounds(1)[OF a] a53 by simp
  then have hi: "?e \<le> 53" by (simp only: pow2_le_iff)
  have e: "max ?e (- 1022) = ?e" using lo by simp
  have int: "\<exists>j. ?a / 2 powi (?e - 52) = of_int j"
  proof (cases "?e = 53")
    case True
    with ilog2_bounds(1)[OF a] a53 have "?a = 2 ^ 53" by simp
    with True have "?a / 2 powi (?e - 52) = of_int (2 ^ 52)" by simp
    then show ?thesis by blast
  next
    case False
    with hi have "0 \<le> 52 - ?e" by simp
    have "?a / 2 powi (?e - 52) = ?a * 2 powi (52 - ?e)"
      by (simp add: power_int_diff)
    also have "\<dots> = of_int (\<bar>k\<bar> * 2 ^ nat (52 - ?e))"
      using \<open>0 \<le> 52 - ?e\<close> by (simp add: power_int_def)
    finally show ?thesis by blast
  qed
  then obtain j where j: "?a / 2 powi (?e - 52) = of_int j" by blast
  have "quantize (2 powi (?e - 52)) ?a = of_int (roundHalfEven (of_int j)) * 2 powi (?e - 52)"
    by (simp only: quantize_def j)
  also have "\<dots> = ?a / 2 powi (?e - 52) * 2 powi (?e - 52)"
    by (simp only: roundHalfEven_of_int j)
  also have "\<dots> = ?a" by simp
  finally have q: "quantize (2 powi (?e - 52)) ?a = ?a" .
  have small: "\<not> overflowThreshold \<le> ?a"
    using a53 by (simp add: overflowThreshold_eq not_le)
  show ?thesis
    using False small by (auto simp: round64_def e q overflow_def)
qed

lemma round64_numeral:
  assumes "numeral n \<le> (2 :: int) ^ 53"
  shows "round64 (numeral n) = Fin (numeral n)"
  using round64_of_int[of "numeral n"] assms by simp

lemma round64_1: "round64 1 = Fin 1"
  using round64_of_int[of 1] by simp

lemma js_add_Fin:
  assumes "js_add x y = Fin v"
  shows "\<exists>a b. x = Fin a \<and> y = Fin b \<and> round64 (a + b) = Fin v"
  using assms by (cases x; cases y) simp_all

text \<open>From \<open>2^1024\<close> on a number rounds to infinity, and below \<open>2^-1075\<close> to zero.\<close>

lemma round64_overflow:
  assumes "2 ^ 1024 \<le> x"
  shows "round64 x = PosInf"
proof -
  have x: "0 < x"
    using assms by (rule less_le_trans[rotated]) simp
  define e where "e = ilog2 x"
  have "(2::rat) powi 1024 \<le> x"
    using assms by simp
  also have "x < 2 powi (e + 1)"
    unfolding e_def using x by (rule ilog2_bounds(2))
  finally have e: "1024 \<le> e"
    by (simp only: pow2_less_iff)
  define q :: rat where "q = 2 powi (e - 52)"
  have q: "0 < q" by (simp add: q_def)
  have "of_int (2 ^ 52) * q = 2 powi 52 * 2 powi (e - 52)"
    by (simp add: q_def)
  also have "\<dots> = 2 powi e"
    by (simp only: pow2_add[symmetric]) simp
  finally have k: "of_int (2 ^ 52) * q = 2 powi e" .
  have "2 powi e \<le> x"
    unfolding e_def using x by (rule ilog2_bounds(1))
  then have "of_int (2 ^ 52) * q \<le> quantize q x"
    unfolding k[symmetric] by (rule quantize_ge[OF q])
  then have "2 powi e \<le> quantize q x"
    by (simp only: k)
  moreover have "(2::rat) powi 1024 \<le> 2 powi e"
    using e by (simp only: pow2_le_iff)
  ultimately have "2 powi 1024 \<le> quantize q x"
    by (rule order_trans[rotated])
  then have "overflowThreshold \<le> quantize q x"
    by (simp add: overflowThreshold_eq)
  moreover have "max e (- 1022) = e"
    using e by simp
  ultimately show ?thesis
    using x by (simp add: round64_def overflow_def e_def[symmetric] q_def[symmetric])
qed

lemma round64_underflow:
  assumes "0 < x" "x < 1 / 2 ^ 1075"
  shows "round64 x = Fin 0"
proof -
  define e where "e = ilog2 x"
  have "2 powi e \<le> x"
    unfolding e_def using assms(1) by (rule ilog2_bounds(1))
  also have "x < 2 powi (- 1075)"
    using assms(2) by (simp add: power_int_minus divide_simps)
  finally have e: "e < - 1075"
    by (simp only: pow2_less_iff)
  then have m: "max e (- 1022) - 52 = - 1074"
    by simp
  define q :: rat where "q = 2 powi (- 1074)"
  have q: "0 < q" by (simp add: q_def)
  have "x < 1 / 2 * q"
    using assms(2) by (simp add: q_def power_int_minus divide_simps)
  then have half: "x / q < 1 / 2"
    using q by (simp add: pos_divide_less_eq)
  have pos: "0 < x / q"
    using assms(1) q by simp
  define m where "m = x / q"
  have "m < 1 / 2" "0 < m"
    using half pos by (simp_all only: m_def)
  then have "\<lfloor>m\<rfloor> = 0" "m - of_int 0 < 1 / 2"
    by (simp_all add: floor_eq_iff)
  then have "roundHalfEven m = 0"
    by (simp add: roundHalfEven_def roundTo_def)
  then have z: "quantize q x = 0"
    by (simp add: quantize_def m_def)
  have "round64 x = overflow True (quantize (2 powi (max (ilog2 x) (- 1022) - 52)) x)"
    using assms(1) by (simp add: round64_def)
  also have "max (ilog2 x) (- 1022) - 52 = - 1074"
    using m by (simp only: e_def)
  also have "quantize (2 powi (- 1074)) x = 0"
    using z by (simp only: q_def)
  also have "overflow True 0 = Fin 0"
    by (simp add: overflow_def overflowThreshold_def)
  finally show ?thesis .
qed

text \<open>So \<open>1e309\<close> is read as infinity and \<open>1e-324\<close> as zero.\<close>

lemma digitsVal_309: "digitsVal ''309'' = 309" "digitsVal ''324'' = 324" "digitsVal ''1'' = 1"
  by (simp_all add: digitsVal_def digitVal_def)

lemma parseFloat_overflow: "parseFloat ''1e309'' = PosInf"
proof -
  have "parseFloat ''1e309'' = round64 (10 ^ 309)"
    by (simp add: parseFloat_def parseUnsigned_def parseExponent_def scale10_def isWhiteSpace_def
          isDigit_def digitsVal_309 Let_def)
  also have "\<dots> = PosInf"
    by (rule round64_overflow) simp
  finally show ?thesis .
qed

lemma parseFloat_underflow: "parseFloat ''1e-324'' = Fin 0"
proof -
  have "parseFloat ''1e-324'' = round64 (1 / 10 ^ 324)"
    by (simp add: parseFloat_def parseUnsigned_def parseExponent_def scale10_def isWhiteSpace_def
          isDigit_def digitsVal_309 Let_def)
  also have "\<dots> = Fin 0"
    by (rule round64_underflow) simp_all
  finally show ?thesis .
qed

subsection \<open>The sample permission\<close>

lemma parseFloat_100: "parseFloat ''100'' = Fin 100"
  by code_simp


lemma parseFloat_60: "parseFloat ''60'' = Fin 60"
  by code_simp

lemma parseFloat_150: "parseFloat ''150'' = Fin 150"
  by code_simp

lemma parseFloat_20: "parseFloat ''20.0'' = Fin 20"
  by code_simp

lemma parseFloat_1e17: "parseFloat ''1e17'' = Fin 100000000000000000"
  by code_simp


lemma sample_created:
  "createPermission sampleWorld emptyManager sampleRequest = Inr (samplePermission, sampleManager)"
  by (simp add: createPermission_def validatePermissionRequest_def requestMetaMaskPermission_def
        sampleWorld_def sampleRequest_def emptyManager_def samplePermission_def sampleManager_def
        sampleToken_def sampleContract_def isValidAddress_def isHexDigit_def isNaN_def
        parseFloat_100 Let_def)

lemma big_created:
  "createPermission sampleWorld emptyManager bigRequest = Inr (bigPermission, bigManager)"
  by (simp add: createPermission_def validatePermissionRequest_def requestMetaMaskPermission_def
        sampleWorld_def sampleRequest_def bigRequest_def emptyManager_def samplePermission_def
        bigPermission_def bigManager_def
        sampleToken_def sampleContract_def isValidAddress_def isHexDigit_def isNaN_def
        parseFloat_1e17 Let_def)


subsection \<open>The spend ledger\<close>

lemma createPermission_Inr:
  assumes "createPermission w s request = Inr (p, s0)"
  shows "permissions s0 = (permissions s)(randomPermissionId w \<mapsto> p)"
    and "spendTracking s0 = (spendTracking s)(randomPermissionId w \<mapsto>
           \<lparr>totalSpent = Fin 0, remainingAllowance = parseFloat (req_maxSpendAmount request),
            spendEntries = []\<rparr>)"
    and "maxSpendAmount p = req_maxSpendAmount request"
    and "status p = Active"
    and "validatePermissionRequest request = None"
  using assms
  by (auto simp: createPermission_def requestMetaMaskPermission_def Let_def
           split: if_splits option.splits sum.splits sa_create_result.splits)

text \<open>One \<open>recordSpend\<close> adds to \<open>totalSpent\<close> the number it takes from \<open>remainingAllowance\<close>.\<close>

lemma recordSpend_moves_amount:
  assumes "recordSpend w s pid amt txh = Inr s'"
  shows "\<exists>tracking. spendTracking s pid = Some tracking
           \<and> map_option totalSpent (spendTracking s' pid)
               = Some (js_add (totalSpent tracking) (parseFloat amt))
           \<and> map_option remainingAllowance (spendTracking s' pid)
               = Some (js_sub (remainingAllowance tracking) (parseFloat amt))"
  using assms by (auto simp: recordSpend_def Let_def split: option.splits)

lemma recordSpend_permissions:
  "permissions (case recordSpend w s p amt txh of Inl msg \<Rightarrow> s | Inr s' \<Rightarrow> s') = permissions s"
  by (auto simp: recordSpend_def Let_def split: option.splits)

lemma recordSpends_permissions: "permissions (recordSpends s calls) = permissions s"
  by (induction s calls rule: recordSpends.induct) (simp_all add: recordSpend_permissions)

lemma magnitudeWithin_Fin:
  assumes "magnitudeWithin B x"
  obtains v where "x = Fin v" "\<bar>v\<bar> \<le> B"
  using assms by (cases x) simp_all

text \<open>
  One call moves the sum of the two fields by at most two rounding errors, each at most
  \<open>B / 2^53 + 2^-1075\<close> when the new fields are within \<open>B\<close>.
\<close>

lemma recordSpend_step_gap:
  assumes tr: "spendTracking s pid = Some tr" "totalSpent tr = Fin t" "remainingAllowance tr = Fin r"
    and within: "ledgerWithin B
      (spendTracking (case recordSpend w s p amt txh of Inl msg \<Rightarrow> s | Inr s' \<Rightarrow> s') pid)"
  shows "\<exists>tr' t' r'.
           spendTracking (case recordSpend w s p amt txh of Inl msg \<Rightarrow> s | Inr s' \<Rightarrow> s') pid = Some tr'
           \<and> totalSpent tr' = Fin t' \<and> remainingAllowance tr' = Fin r'
           \<and> \<bar>(t' + r') - (t + r)\<bar> \<le> 2 * (B / 2 ^ 53 + halfLeastSubnormal)"
proof -
  let ?s' = "case recordSpend w s p amt txh of Inl msg \<Rightarrow> s | Inr s' \<Rightarrow> s'"
  from within obtain tr' where tr': "spendTracking ?s' pid = Some tr'"
    and m: "magnitudeWithin B (totalSpent tr')" "magnitudeWithin B (remainingAllowance tr')"
    by (auto simp: ledgerWithin_def split: option.splits)
  from m(1) obtain t' where t': "totalSpent tr' = Fin t'" "\<bar>t'\<bar> \<le> B"
    by (rule magnitudeWithin_Fin)
  from m(2) obtain r' where r': "remainingAllowance tr' = Fin r'" "\<bar>r'\<bar> \<le> B"
    by (rule magnitudeWithin_Fin)
  have B0: "0 \<le> B" using t'(2) by linarith
  have e0: "0 \<le> B / 2 ^ 53 + halfLeastSubnormal"
    using B0 halfLeastSubnormal_bounds(1) by simp
  have "\<bar>(t' + r') - (t + r)\<bar> \<le> 2 * (B / 2 ^ 53 + halfLeastSubnormal)"
  proof (cases "p = pid \<and> spendTracking s p \<noteq> None")
    case False
    then have "spendTracking ?s' pid = spendTracking s pid"
      by (auto simp: recordSpend_def Let_def split: option.splits)
    with tr tr' t' r' have "t' = t" "r' = r" by simp_all
    with e0 show ?thesis by simp
  next
    case True
    with tr have new: "totalSpent tr' = js_add (Fin t) (parseFloat amt)"
      "remainingAllowance tr' = js_sub (Fin r) (parseFloat amt)"
      using tr' by (auto simp: recordSpend_def Let_def)
    from new(1) t'(1) obtain a where a: "parseFloat amt = Fin a" "round64 (t + a) = Fin t'"
      using js_add_Fin[of "Fin t" "parseFloat amt" t'] by auto
    from new(2) r'(1) a(1) have ra: "round64 (r + - a) = Fin r'"
      by (simp add: js_sub_def)
    have et: "\<bar>t' - (t + a)\<bar> \<le> B / 2 ^ 53 + halfLeastSubnormal"
    proof -
      have "\<bar>t' - (t + a)\<bar> \<le> \<bar>t'\<bar> / 2 ^ 53 + halfLeastSubnormal"
        by (rule round64_error[OF a(2)])
      also have "\<dots> \<le> B / 2 ^ 53 + halfLeastSubnormal"
        using t'(2) by (simp add: divide_right_mono)
      finally show ?thesis .
    qed
    have er: "\<bar>r' - (r + - a)\<bar> \<le> B / 2 ^ 53 + halfLeastSubnormal"
    proof -
      have "\<bar>r' - (r + - a)\<bar> \<le> \<bar>r'\<bar> / 2 ^ 53 + halfLeastSubnormal"
        by (rule round64_error[OF ra])
      also have "\<dots> \<le> B / 2 ^ 53 + halfLeastSubnormal"
        using r'(2) by (simp add: divide_right_mono)
      finally show ?thesis .
    qed
    define e where "e = B / 2 ^ 53 + halfLeastSubnormal"
    have "(t' + r') - (t + r) = (t' - (t + a)) + (r' - (r + - a))" by simp
    then have "\<bar>(t' + r') - (t + r)\<bar> \<le> \<bar>t' - (t + a)\<bar> + \<bar>r' - (r + - a)\<bar>"
      by (simp only: abs_triangle_ineq)
    with et er have "\<bar>(t' + r') - (t + r)\<bar> \<le> 2 * e"
      unfolding e_def[symmetric] by linarith
    then show ?thesis by (simp only: e_def)
  qed
  with tr' t'(1) r'(1) show ?thesis by blast
qed

lemma boundedRun_gap:
  assumes "spendTracking s pid = Some tr" "totalSpent tr = Fin t" "remainingAllowance tr = Fin r"
    and "boundedRun B pid s calls"
  shows "\<exists>tr' t' r'.
           spendTracking (recordSpends s calls) pid = Some tr'
           \<and> totalSpent tr' = Fin t' \<and> remainingAllowance tr' = Fin r'
           \<and> \<bar>(t' + r') - (t + r)\<bar>
               \<le> of_nat (length calls) * (2 * (B / 2 ^ 53 + halfLeastSubnormal))"
  using assms
proof (induction s calls arbitrary: tr t r rule: recordSpends.induct)
  case (1 s)
  then show ?case by simp
next
  case (2 s w p amt txh calls)
  let ?s' = "case recordSpend w s p amt txh of Inl msg \<Rightarrow> s | Inr s' \<Rightarrow> s'"
  let ?e = "2 * (B / 2 ^ 53 + halfLeastSubnormal)"
  from "2.prems"(4) have w: "ledgerWithin B (spendTracking ?s' pid)" and b: "boundedRun B pid ?s' calls"
    by simp_all
  from recordSpend_step_gap[OF "2.prems"(1,2,3) w] obtain tr1 t1 r1 where
    s1: "spendTracking ?s' pid = Some tr1" "totalSpent tr1 = Fin t1" "remainingAllowance tr1 = Fin r1"
    and g1: "\<bar>(t1 + r1) - (t + r)\<bar> \<le> ?e"
    by blast
  from "2.IH"[OF s1 b] obtain tr' t' r' where
    s': "spendTracking (recordSpends ?s' calls) pid = Some tr'" "totalSpent tr' = Fin t'"
      "remainingAllowance tr' = Fin r'"
    and g': "\<bar>(t' + r') - (t1 + r1)\<bar> \<le> of_nat (length calls) * ?e"
    by blast
  define e where "e = ?e"
  define k :: rat where "k = of_nat (length calls)"
  have "\<bar>(t' + r') - (t + r)\<bar> \<le> \<bar>(t' + r') - (t1 + r1)\<bar> + \<bar>(t1 + r1) - (t + r)\<bar>"
    by linarith
  moreover have "\<bar>(t1 + r1) - (t + r)\<bar> \<le> e" "\<bar>(t' + r') - (t1 + r1)\<bar> \<le> k * e"
    using g1 g' by (simp_all only: e_def k_def)
  ultimately have "\<bar>(t' + r') - (t + r)\<bar> \<le> k * e + e"
    by linarith
  also have "k * e + e = of_nat (length ((w, p, amt, txh) # calls)) * e"
    by (simp add: k_def algebra_simps)
  finally have "\<bar>(t' + r') - (t + r)\<bar> \<le> of_nat (length ((w, p, amt, txh) # calls)) * ?e"
    by (simp only: e_def)
  with s' show ?case
    unfolding recordSpends.simps by blast
qed

text \<open>The accumulated error stays under the tolerance for the run lengths the theorem admits.\<close>

lemma run_error_small:
  assumes "1 \<le> B" "of_nat n * B \<le> (2251799813 :: rat)"
  shows "of_nat n * (2 * (B / 2 ^ 53 + halfLeastSubnormal)) \<le> 1 / 1000000"
proof -
  define h where "h = halfLeastSubnormal"
  define c where "c = B / 2 ^ 53"
  define k :: rat where "k = of_nat n"
  have k0: "0 \<le> k" by (simp add: k_def)
  have "h \<le> 1 / 2 ^ 53"
    unfolding h_def by (rule halfLeastSubnormal_bounds(2))
  also have "\<dots> \<le> c"
    unfolding c_def using assms(1) by (simp add: divide_right_mono)
  finally have hc: "h \<le> c" .
  have "2 * (c + h) \<le> 4 * c"
    using hc by simp
  then have "k * (2 * (c + h)) \<le> k * (4 * c)"
    using k0 by (rule mult_left_mono)
  also have "\<dots> = (k * B) / 2251799813685248"
    by (simp add: c_def)
  also have "\<dots> \<le> 2251799813 / 2251799813685248"
    using assms(2) by (simp add: k_def divide_right_mono)
  also have "\<dots> \<le> 1 / 1000000" by simp
  finally show ?thesis
    by (simp only: k_def c_def h_def)
qed

text \<open>
  C1 (as amended). A permission made by \<open>createPermission\<close> starts with \<open>totalSpent = 0\<close> and
  \<open>remainingAllowance = maxSpendAmount\<close>. Take any sequence of \<open>recordSpend\<close> calls after
  which the two fields of this permission's ledger are always finite and at most \<open>B\<close> in
  absolute value, with \<open>B\<close> at least 1 and the number of calls times \<open>B\<close> at most
  2251799813 (up to 2251 calls while both stay within a million, say). Then, for a finite
  \<open>maxSpendAmount\<close>, \<open>totalSpent + remainingAllowance\<close> is within \<open>1e-6\<close> of \<open>maxSpendAmount\<close>
  after the sequence.
\<close>

theorem ledger_balanced_within_bounds:
  assumes "createPermission w s request = Inr (p, s0)"
    and "isFinite (parseFloat (maxSpendAmount p))"
    and "boundedRun B (randomPermissionId w) s0 calls"
    and "1 \<le> B"
    and "of_nat (length calls) * B \<le> 2251799813"
  shows "spendTracking s0 (randomPermissionId w)
           = Some \<lparr>totalSpent = Fin 0, remainingAllowance = parseFloat (maxSpendAmount p),
                   spendEntries = []\<rparr>
         \<and> ledgerBalanced (recordSpends s0 calls) (randomPermissionId w)"
proof -
  let ?pid = "randomPermissionId w"
  note c = createPermission_Inr[OF assms(1)]
  from assms(2) obtain m where m: "parseFloat (maxSpendAmount p) = Fin m"
    by (cases "parseFloat (maxSpendAmount p)") simp_all
  let ?t0 = "\<lparr>totalSpent = Fin 0, remainingAllowance = Fin m, spendEntries = []\<rparr>"
  have start: "spendTracking s0 ?pid = Some ?t0"
    using m by (simp add: c(2) c(3))
  from boundedRun_gap[OF start _ _ assms(3), of 0 m] obtain tr' t' r' where
    l: "spendTracking (recordSpends s0 calls) ?pid = Some tr'" "totalSpent tr' = Fin t'"
      "remainingAllowance tr' = Fin r'"
    and g: "\<bar>(t' + r') - (0 + m)\<bar>
              \<le> of_nat (length calls) * (2 * (B / 2 ^ 53 + halfLeastSubnormal))"
    by auto
  from g run_error_small[OF assms(4,5)] have "\<bar>t' + r' - m\<bar> \<le> 1 / 1000000"
    by simp
  moreover have "permissions (recordSpends s0 calls) ?pid = Some p"
    by (simp add: recordSpends_permissions c(1))
  ultimately have "ledgerBalanced (recordSpends s0 calls) ?pid"
    by (simp add: ledgerBalanced_def l m)
  with start m show ?thesis by simp
qed

theorem ledger_balanced_within_bounds_witness:
  "createPermission sampleWorld emptyManager sampleRequest = Inr (samplePermission, sampleManager)
   \<and> isFinite (parseFloat (maxSpendAmount samplePermission))
   \<and> boundedRun 1000 ''perm_1'' sampleManager
        [(sampleWorld, ''perm_1'', ''40'', ''0xa1''), (sampleWorld, ''perm_1'', ''70.5'', ''0xa2'')]
   \<and> map_option totalSpent (spendTracking (recordSpends sampleManager
        [(sampleWorld, ''perm_1'', ''40'', ''0xa1''), (sampleWorld, ''perm_1'', ''70.5'', ''0xa2'')])
        ''perm_1'') = Some (Fin (221 / 2))
   \<and> map_option remainingAllowance (spendTracking (recordSpends sampleManager
        [(sampleWorld, ''perm_1'', ''40'', ''0xa1''), (sampleWorld, ''perm_1'', ''70.5'', ''0xa2'')])
        ''perm_1'') = Some (Fin (- (21 / 2)))
   \<and> ledgerBalanced (recordSpends sampleManager
        [(sampleWorld, ''perm_1'', ''40'', ''0xa1''), (sampleWorld, ''perm_1'', ''70.5'', ''0xa2'')])
        ''perm_1''"
proof -
  let ?calls = "[(sampleWorld, ''perm_1'', ''40'', ''0xa1''), (sampleWorld, ''perm_1'', ''70.5'', ''0xa2'')]"
  have mx: "isFinite (parseFloat (maxSpendAmount samplePermission))"
    by (simp add: samplePermission_def parseFloat_100)
  have pid: "randomPermissionId sampleWorld = ''perm_1''"
    by (simp add: sampleWorld_def)
  have b: "boundedRun 1000 (randomPermissionId sampleWorld) sampleManager ?calls"
    unfolding pid by code_simp
  have t: "map_option totalSpent (spendTracking (recordSpends sampleManager ?calls) ''perm_1'')
             = Some (Fin (221 / 2))"
    by code_simp
  have r: "map_option remainingAllowance (spendTracking (recordSpends sampleManager ?calls) ''perm_1'')
             = Some (Fin (- (21 / 2)))"
    by code_simp
  show ?thesis
    using ledger_balanced_within_bounds[OF sample_created mx b] sample_created mx b t r
    by (simp add: pid)
qed

text \<open>
  C1 as stated fails in two ways. An amount that does not parse to a number turns both
  fields into NaN. And sums are rounded: against a limit of \<open>1e17\<close> a spend of 1 raises
  \<open>totalSpent\<close> to 1 and leaves \<open>remainingAllowance\<close> at \<open>1e17\<close>, so the sum is off by 1.
\<close>

theorem ledger_unbalanced_after_nan_or_large_spend:
  "createPermission sampleWorld emptyManager sampleRequest = Inr (samplePermission, sampleManager)
   \<and> map_option totalSpent (spendTracking
        (recordSpends sampleManager [(sampleWorld, ''perm_1'', ''abc'', ''0xa1'')]) ''perm_1'') = Some NaN
   \<and> \<not> ledgerBalanced (recordSpends sampleManager [(sampleWorld, ''perm_1'', ''abc'', ''0xa1'')])
         ''perm_1''
   \<and> createPermission sampleWorld emptyManager bigRequest = Inr (bigPermission, bigManager)
   \<and> map_option totalSpent (spendTracking
        (recordSpends bigManager [(sampleWorld, ''perm_1'', ''1'', ''0xa1'')]) ''perm_1'') = Some (Fin 1)
   \<and> map_option remainingAllowance (spendTracking
        (recordSpends bigManager [(sampleWorld, ''perm_1'', ''1'', ''0xa1'')]) ''perm_1'')
       = Some (Fin 100000000000000000)
   \<and> \<not> ledgerBalanced (recordSpends bigManager [(sampleWorld, ''perm_1'', ''1'', ''0xa1'')])
         ''perm_1''"
proof -
  have a: "map_option totalSpent (spendTracking
        (recordSpends sampleManager [(sampleWorld, ''perm_1'', ''abc'', ''0xa1'')]) ''perm_1'') = Some NaN"
    by code_simp
  have b: "\<not> ledgerBalanced (recordSpends sampleManager [(sampleWorld, ''perm_1'', ''abc'', ''0xa1'')])
         ''perm_1''"
    by code_simp
  have c: "map_option totalSpent (spendTracking
        (recordSpends bigManager [(sampleWorld, ''perm_1'', ''1'', ''0xa1'')]) ''perm_1'') = Some (Fin 1)"
    by code_simp
  have d: "map_option remainingAllowance (spendTracking
        (recordSpends bigManager [(sampleWorld, ''perm_1'', ''1'', ''0xa1'')]) ''perm_1'')
       = Some (Fin 100000000000000000)"
    by code_simp
  have e: "\<not> ledgerBalanced (recordSpends bigManager [(sampleWorld, ''perm_1'', ''1'', ''0xa1'')])
         ''perm_1''"
    by code_simp
  show ?thesis
    using sample_created big_created a b c d e by simp
qed

subsection \<open>validateAction\<close>

lemma getPermission_cases:
  "getPermission w s pid =
     (case permissions s pid of
        None \<Rightarrow> (None, s)
      | Some p \<Rightarrow>
          if status p \<noteq> Revoked \<and> dateNow w > endTime p
          then (Some (p\<lparr>status := Expired\<rparr>),
                s\<lparr>permissions := (permissions s)(pid \<mapsto> p\<lparr>status := Expired\<rparr>)\<rparr>)
          else (Some p, s))"
  by (simp add: getPermission_def updatePermissionStatus_def split: option.splits)

lemma getPermission_spendTracking: "spendTracking (snd (getPermission w s pid)) = spendTracking s"
  by (simp add: getPermission_cases split: option.splits)

lemma validateAction_state: "snd (validateAction w s pid token amt contract) = snd (getPermission w s pid)"
  by (simp add: validateAction_def split: prod.splits option.splits)



text \<open>
  The projected spend is rounded as the code rounds it: after a spend of \<open>0.1\<close> against a
  limit of \<open>0.3\<close> a further \<open>0.2\<close> is refused, the binary64 sum being above the binary64
  limit, and it would be accepted were the sum exact.
\<close>

lemma validateAction_rounds_projected_spend:
  "\<not> fst (validateAction sampleWorld dimeManager ''perm_1'' sampleToken ''0.2'' sampleContract)
   \<and> js_add (parseFloat ''0.1'') (parseFloat ''0.2'') = Fin (1351079888211149 / 4503599627370496)
   \<and> parseFloat ''0.3'' = Fin (5404319552844595 / 18014398509481984)"
  by code_simp

text \<open>
  C7 (as amended). \<open>validateAction\<close> never touches the spend ledger, and the only change it
  can make to the permission map is the lazy expiry of the permission it looks up: when that
  permission is stored, is not revoked and its end time has passed, its status becomes
  expired; in every other case the store is left exactly as it was.
\<close>

theorem validateAction_frame:
  "spendTracking (snd (validateAction w s pid token amt contract)) = spendTracking s
   \<and> snd (validateAction w s pid token amt contract) =
       (case permissions s pid of
          None \<Rightarrow> s
        | Some p \<Rightarrow>
            if status p \<noteq> Revoked \<and> dateNow w > endTime p
            then s\<lparr>permissions := (permissions s)(pid \<mapsto> p\<lparr>status := Expired\<rparr>)\<rparr>
            else s)"
  by (simp add: validateAction_state getPermission_cases split: option.splits)

text \<open>
  C7 as stated fails: a call after the end time of a permission stored as active rewrites
  its status.
\<close>

theorem validateAction_expires_permission:
  "map_option status (permissions sampleManager ''perm_1'') = Some Active
   \<and> map_option status
        (permissions (snd (validateAction lateWorld sampleManager ''perm_1'' sampleToken ''40'' sampleContract))
           ''perm_1'') = Some Expired"
  by (simp add: validateAction_state getPermission_cases sampleManager_def samplePermission_def
        lateWorld_def sampleWorld_def)

subsection \<open>revokePermission\<close>

lemma revokePermission_rejects_stored_inactive:
  assumes "walletConnected w" "permissions s pid = Some p" "status p \<noteq> Active"
  shows "revokePermission w s pid = Inl ''Can only revoke active permissions''"
  using assms by (simp add: revokePermission_def)

lemma revokePermission_rejects_absent:
  assumes "walletConnected w" "permissions s pid = None"
  shows "revokePermission w s pid = Inl ''Permission not found''"
  using assms by (simp add: revokePermission_def)

text \<open>Revocation succeeds exactly for a connected wallet and a stored status of active.\<close>

lemma revokePermission_succeeds_iff:
  "revokePermission w s pid = Inr s' \<longleftrightarrow>
     walletConnected w
     \<and> (\<exists>p. permissions s pid = Some p \<and> status p = Active
            \<and> s' = s\<lparr>permissions := (permissions s)(pid \<mapsto> p\<lparr>status := Revoked\<rparr>)\<rparr>)"
  by (auto simp: revokePermission_def split: option.splits)

text \<open>
  C6. After its end time the sample permission, still stored as active, reads as expired
  through \<open>getPermission\<close>; \<open>revokePermission\<close> looks at the stored status alone and revokes it.
\<close>

theorem revokePermission_revokes_lapsed_permission:
  "map_option status (fst (getPermission lateWorld sampleManager ''perm_1'')) = Some Expired
   \<and> revokePermission lateWorld sampleManager ''perm_1''
       = Inr (sampleManager\<lparr>permissions := [''perm_1'' \<mapsto> samplePermission\<lparr>status := Revoked\<rparr>]\<rparr>)"
  by (simp add: getPermission_cases revokePermission_def sampleManager_def samplePermission_def
        lateWorld_def sampleWorld_def)


subsection \<open>The fallback decision\<close>

lemma fallback_closed_form:
  "fallbackDecisionMaking intent context =
     (if networkCongestion context = High then
        \<lparr>shouldExecute = False,
         reasoning = ''Network congestion too high, transaction may fail or be expensive'',
         confidence = 85,
         riskAssessment = ''high - network congestion''\<rparr>
      else if js_gt (parseFloat (gasPrice context)) (Fin 50) then
        \<lparr>shouldExecute = False,
         reasoning = ''Gas price too high for efficient execution'',
         confidence = (if js_gt (parseFloat (amount intent)) (Fin 100) then 70 else 90),
         riskAssessment = (if js_gt (parseFloat (amount intent)) (Fin 100)
                           then ''medium - large transaction amount''
                           else ''high - expensive gas fees'')\<rparr>
      else
        \<lparr>shouldExecute = True,
         reasoning = ''Conditions are favorable for execution'',
         confidence = (if js_gt (parseFloat (amount intent)) (Fin 100) then 60 else 80),
         riskAssessment = (if js_gt (parseFloat (amount intent)) (Fin 100)
                           then ''medium - large transaction amount''
                           else ''low'')\<rparr>)"
  by (simp add: fallbackDecisionMaking_def Let_def Math_max_def)

lemma includes_gas_phrase:
  "str_includes ''Gas price too high for efficient execution'' ''Gas price too high''"
  by simp

lemma not_includes_gas_phrase:
  "\<not> str_includes ''Network congestion too high, transaction may fail or be expensive''
       ''Gas price too high''"
  by simp
text \<open>
  C5 (as amended). The fallback computes exactly what its three rules give when applied in
  order to the favourable default: high congestion gives the congestion verdict whatever
  else holds; otherwise a gas price above 50 declines with confidence 90, and an amount
  above 100 lowers the confidence by 20 and sets the risk label to the large-amount one.
  \<open>queryGaiaLLM\<close> returns this decision when the provider is not configured or its call
  fails. With a gas price of 60 the decision declines; its reasoning contains
  \<open>Gas price too high\<close> unless the congestion is high, in which case the congestion rule has
  replaced the reasoning. The fallback is a total function: it always returns a decision.
\<close>

theorem fallback_decision_rules:
  "fallbackDecisionMaking intent context =
     (if networkCongestion context = High then
        \<lparr>shouldExecute = False,
         reasoning = ''Network congestion too high, transaction may fail or be expensive'',
         confidence = 85,
         riskAssessment = ''high - network congestion''\<rparr>
      else if js_gt (parseFloat (gasPrice context)) (Fin 50) then
        \<lparr>shouldExecute = False,
         reasoning = ''Gas price too high for efficient execution'',
         confidence = (if js_gt (parseFloat (amount intent)) (Fin 100) then 70 else 90),
         riskAssessment = (if js_gt (parseFloat (amount intent)) (Fin 100)
                           then ''medium - large transaction amount''
                           else ''high - expensive gas fees'')\<rparr>
      else
        \<lparr>shouldExecute = True,
         reasoning = ''Conditions are favorable for execution'',
         confidence = (if js_gt (parseFloat (amount intent)) (Fin 100) then 60 else 80),
         riskAssessment = (if js_gt (parseFloat (amount intent)) (Fin 100)
                           then ''medium - large transaction amount''
                           else ''low'')\<rparr>)
   \<and> (gaiaEndpoint w = [] \<or> gaiaApiKey w = [] \<or> gaiaReply w = None
        \<longrightarrow> fst (queryGaiaLLM w pm intent context) = fallbackDecisionMaking intent context)
   \<and> (parseFloat (gasPrice context) = Fin 60
        \<longrightarrow> \<not> shouldExecute (fallbackDecisionMaking intent context)
            \<and> (networkCongestion context \<noteq> High
                 \<longrightarrow> str_includes (reasoning (fallbackDecisionMaking intent context))
                       ''Gas price too high''))"
proof -
  have q: "fst (queryGaiaLLM w pm intent context) = fallbackDecisionMaking intent context"
    if "gaiaEndpoint w = [] \<or> gaiaApiKey w = [] \<or> gaiaReply w = None"
    using that by (auto simp: queryGaiaLLM_def split: prod.splits option.splits)
  show ?thesis
    using q by (simp add: fallback_closed_form includes_gas_phrase)
qed

theorem fallback_decision_rules_witness:
  "gaiaEndpoint sampleWorld = []
   \<and> parseFloat (gasPrice hotMarket) = Fin 60
   \<and> networkCongestion hotMarket \<noteq> High
   \<and> fallbackDecisionMaking largeIntent hotMarket =
       \<lparr>shouldExecute = False,
        reasoning = ''Gas price too high for efficient execution'',
        confidence = 70,
        riskAssessment = ''medium - large transaction amount''\<rparr>
   \<and> fst (queryGaiaLLM sampleWorld sampleManager largeIntent hotMarket)
       = fallbackDecisionMaking largeIntent hotMarket
   \<and> str_includes (reasoning (fallbackDecisionMaking largeIntent hotMarket)) ''Gas price too high''"
proof -
  have g: "parseFloat (gasPrice hotMarket) = Fin 60"
    by (simp add: hotMarket_def sampleMarket_def parseFloat_60)
  have a: "parseFloat (amount largeIntent) = Fin 150"
    by (simp add: largeIntent_def sampleIntent_def parseFloat_150)
  have c: "networkCongestion hotMarket \<noteq> High"
    by (simp add: hotMarket_def sampleMarket_def)
  have e: "gaiaEndpoint sampleWorld = []"
    by (simp add: sampleWorld_def)
  show ?thesis
    using fallback_decision_rules[of largeIntent hotMarket sampleWorld sampleManager] g a c e
    by simp
qed

text \<open>
  C5 as stated fails in its last example: with a gas price of 60 and high congestion the
  reasoning is the congestion one, which does not contain \<open>Gas price too high\<close>.
\<close>

theorem fallback_gas_60_congested_reasoning:
  "parseFloat (gasPrice congestedMarket) = Fin 60
   \<and> reasoning (fallbackDecisionMaking sampleIntent congestedMarket)
       = ''Network congestion too high, transaction may fail or be expensive''
   \<and> \<not> str_includes (reasoning (fallbackDecisionMaking sampleIntent congestedMarket))
         ''Gas price too high''"
proof -
  have g: "parseFloat (gasPrice congestedMarket) = Fin 60"
    by (simp add: congestedMarket_def sampleMarket_def parseFloat_60)
  have r: "reasoning (fallbackDecisionMaking sampleIntent congestedMarket)
             = ''Network congestion too high, transaction may fail or be expensive''"
    by (simp add: fallback_closed_form congestedMarket_def sampleMarket_def)
  show ?thesis
    using g r not_includes_gas_phrase by simp
qed

subsection \<open>The wallet check\<close>

text \<open>
  C10. With the wallet not connected, \<open>processIntent\<close> and \<open>executeIntentDirectly\<close> return
  at once: the execution is failed with error \<open>Wallet not connected\<close>, its decision declines
  with confidence 0, it carries the intent as submitted and no transaction, and it is stored
  in the execution history under its id; the permission store (which \<open>validateAction\<close> could
  have changed), the other history entries and the schedules are as before.
\<close>

theorem wallet_not_connected_fails_fast:
  assumes "\<not> walletConnected w"
  shows "(\<forall>run \<in> {processIntent, executeIntentDirectly}.
            case run w ex intent of
              (e, ex') \<Rightarrow>
                exec_status e = Failed
                \<and> error e = Some ''Wallet not connected''
                \<and> decision e = \<lparr>shouldExecute = False, reasoning = ''Wallet not connected'',
                                 confidence = 0, riskAssessment = ''high''\<rparr>
                \<and> exec_intent e = intent
                \<and> exec_transactionHash e = None
                \<and> exec_id e = randomExecutionId w
                \<and> executions ex' = (executions ex)(exec_id e \<mapsto> e)
                \<and> permissionManager ex' = permissionManager ex
                \<and> scheduledIntents ex' = scheduledIntents ex
                \<and> activeSchedules ex' = activeSchedules ex)"
  using assms by (simp add: processIntent_def executeIntentDirectly_def Let_def)

theorem wallet_not_connected_fails_fast_witness:
  "\<not> walletConnected disconnectedWorld
   \<and> exec_status (fst (processIntent disconnectedWorld sampleExecutor sampleIntent)) = Failed
   \<and> error (fst (processIntent disconnectedWorld sampleExecutor sampleIntent))
       = Some ''Wallet not connected''
   \<and> exec_status (fst (executeIntentDirectly disconnectedWorld sampleExecutor sampleIntent)) = Failed
   \<and> permissionManager (snd (processIntent disconnectedWorld sampleExecutor sampleIntent))
       = sampleManager
   \<and> permissionManager (snd (executeIntentDirectly disconnectedWorld sampleExecutor sampleIntent))
       = sampleManager"
proof -
  have d: "\<not> walletConnected disconnectedWorld"
    by (simp add: disconnectedWorld_def)
  have m: "permissionManager sampleExecutor = sampleManager"
    by (simp add: sampleExecutor_def)
  show ?thesis
    using wallet_not_connected_fails_fast[where ex = sampleExecutor and intent = sampleIntent, OF d] d m
    by (auto split: prod.splits)
qed

subsection \<open>The two pipelines\<close>

lemma fallbackDecisionMaking_schedule:
  "fallbackDecisionMaking (intent\<lparr>schedule := sch\<rparr>) context = fallbackDecisionMaking intent context"
  by (simp add: fallbackDecisionMaking_def Let_def)

lemma queryGaiaLLM_schedule:
  "queryGaiaLLM w pm (intent\<lparr>schedule := sch\<rparr>) context = queryGaiaLLM w pm intent context"
  by (simp add: queryGaiaLLM_def fallbackDecisionMaking_schedule split: prod.splits option.splits)

text \<open>
  \<open>executeTransaction\<close> looks at the permission id, the amount and the contract of the
  intent and at the decision's reasoning; two executions that agree on these (and on the
  fields a failure leaves alone) fare alike.
\<close>

lemma executeTransaction_rel:
  assumes "executeTransaction w pm e1 = (m1, r1, p1)"
    and "executeTransaction w pm e2 = (m2, r2, p2)"
    and "permissionId (exec_intent e1) = permissionId (exec_intent e2)"
    and "amount (exec_intent e1) = amount (exec_intent e2)"
    and "contractAddress (exec_intent e1) = contractAddress (exec_intent e2)"
    and "decision e1 = decision e2"
    and "exec_transactionHash e1 = exec_transactionHash e2"
    and "gasUsed e1 = gasUsed e2"
    and "error e1 = error e2"
  shows "m1 = m2 \<and> p1 = p2 \<and> exec_status r1 = exec_status r2 \<and> decision r1 = decision r2
         \<and> error r1 = error r2 \<and> exec_transactionHash r1 = exec_transactionHash r2
         \<and> gasUsed r1 = gasUsed r2 \<and> explanation r1 = explanation r2"
  using assms
  by (auto simp: executeTransaction_def executeTransaction_try_def Let_def
           split: prod.splits option.splits sum.splits if_splits)

lemma scheduleRecurringIntent_permissionManager:
  "permissionManager (scheduleRecurringIntent w ex intent) = permissionManager ex"
  by (simp add: scheduleRecurringIntent_def Let_def split: option.splits)

lemma pipelines_agree_fields:
  "(case processIntent w ex intent of
      (e1, ex1) \<Rightarrow>
        (case executeIntentDirectly w ex intent of
           (e2, ex2) \<Rightarrow>
             exec_status e1 = exec_status e2
             \<and> decision e1 = decision e2
             \<and> error e1 = error e2
             \<and> exec_transactionHash e1 = exec_transactionHash e2
             \<and> gasUsed e1 = gasUsed e2
             \<and> permissionManager ex1 = permissionManager ex2
             \<and> (walletConnected w \<longrightarrow> explanation e1 = explanation e2)))"
proof (cases "walletConnected w")
  case False
  then show ?thesis
    by (simp add: processIntent_def executeIntentDirectly_def Let_def)
next
  case True
  show ?thesis
    using True
    apply (simp add: processIntent_def executeIntentDirectly_def Let_def queryGaiaLLM_schedule
       scheduleRecurringIntent_permissionManager split: prod.splits option.splits bool.splits)
    apply (intro allI impI conjI)
    apply ((drule (1) executeTransaction_rel; simp)+)
    done
qed

text \<open>
  C9 (as amended). With the wallet connected, \<open>processIntent\<close> and \<open>executeIntentDirectly\<close>,
  run on the same intent in the same store and world, end with the same status, decision,
  explanation, error and transaction reference and leave the same permission store, spend
  ledger included. With the wallet not connected they still agree on all of these but the
  explanation.
\<close>

theorem pipelines_agree:
  "exec_status (fst (processIntent w ex intent))
     = exec_status (fst (executeIntentDirectly w ex intent))
   \<and> decision (fst (processIntent w ex intent)) = decision (fst (executeIntentDirectly w ex intent))
   \<and> error (fst (processIntent w ex intent)) = error (fst (executeIntentDirectly w ex intent))
   \<and> exec_transactionHash (fst (processIntent w ex intent))
       = exec_transactionHash (fst (executeIntentDirectly w ex intent))
   \<and> permissionManager (snd (processIntent w ex intent))
       = permissionManager (snd (executeIntentDirectly w ex intent))
   \<and> (walletConnected w
        \<longrightarrow> explanation (fst (processIntent w ex intent))
            = explanation (fst (executeIntentDirectly w ex intent)))"
  using pipelines_agree_fields[of w ex intent] by (simp split: prod.splits)

theorem pipelines_agree_witness:
  "walletConnected sampleWorld
   \<and> exec_status (fst (executeIntentDirectly sampleWorld sampleExecutor sampleIntent)) = Executed
   \<and> exec_status (fst (processIntent sampleWorld sampleExecutor sampleIntent)) = Executed
   \<and> explanation (fst (processIntent sampleWorld sampleExecutor sampleIntent))
       = explanation (fst (executeIntentDirectly sampleWorld sampleExecutor sampleIntent))"
proof -
  have c: "walletConnected sampleWorld"
    by (simp add: sampleWorld_def)
  have d: "exec_status (fst (executeIntentDirectly sampleWorld sampleExecutor sampleIntent)) = Executed"
    by code_simp
  show ?thesis
    using pipelines_agree[of sampleWorld sampleExecutor sampleIntent] c d by simp
qed

text \<open>
  C9 as stated fails: with the wallet not connected the two paths give different
  explanations.
\<close>

theorem pipelines_differ_when_disconnected:
  "explanation (fst (processIntent disconnectedWorld sampleExecutor sampleIntent))
     = ''Cannot execute: Wallet not connected. Please connect your wallet first.''
   \<and> explanation (fst (executeIntentDirectly disconnectedWorld sampleExecutor sampleIntent))
       = ''Cannot execute scheduled intent: Wallet not connected.''
   \<and> explanation (fst (processIntent disconnectedWorld sampleExecutor sampleIntent))
       \<noteq> explanation (fst (executeIntentDirectly disconnectedWorld sampleExecutor sampleIntent))"
  by (simp add: processIntent_def executeIntentDirectly_def disconnectedWorld_def sampleWorld_def
        Let_def)

subsection \<open>Runs that fail\<close>

lemma getPermissions_spendTracking: "spendTracking (getPermissions w s) = spendTracking s"
  by (simp add: getPermissions_def)

lemma getPermission_spendTrackingD:
  "getPermission w s pid = (po, s') \<Longrightarrow> spendTracking s' = spendTracking s"
  using getPermission_spendTracking[of w s pid] by simp

lemma validateAction_spendTrackingD:
  "validateAction w s pid token amt contract = (ok, s') \<Longrightarrow> spendTracking s' = spendTracking s"
  using validateAction_state[of w s pid token amt contract] getPermission_spendTracking[of w s pid]
  by simp

lemma queryGaiaLLM_spendTrackingD:
  "queryGaiaLLM w pm intent context = (d, pm') \<Longrightarrow> spendTracking pm' = spendTracking pm"
  by (auto simp: queryGaiaLLM_def split: if_splits prod.splits option.splits
           dest: getPermission_spendTrackingD)

lemma executeTransaction_SomeD:
  assumes "executeTransaction w pm e = (Some msg, r, p)"
  shows "spendTracking p = spendTracking pm"
  using assms
  by (auto simp: executeTransaction_def executeTransaction_try_def Let_def getPermissions_spendTracking
           split: prod.splits option.splits sum.splits if_splits
           dest: getPermission_spendTrackingD)

lemma executeTransaction_NoneD:
  assumes "executeTransaction w pm e = (None, r, p)"
  shows "exec_status r = Executed"
  using assms
  by (auto simp: executeTransaction_def executeTransaction_try_def Let_def
           split: prod.splits option.splits sum.splits if_splits)

text \<open>Whether \<open>executeTransaction\<close> throws, and what, is decided by three fields of the intent.\<close>

lemma executeTransaction_thrown:
  assumes "executeTransaction w pm e1 = (m1, r1, p1)"
    and "fst (executeTransaction w pm e2) = Some msg"
    and "permissionId (exec_intent e1) = permissionId (exec_intent e2)"
    and "amount (exec_intent e1) = amount (exec_intent e2)"
    and "contractAddress (exec_intent e1) = contractAddress (exec_intent e2)"
  shows "m1 = Some msg"
  using assms
  by (auto simp: executeTransaction_def executeTransaction_try_def Let_def
           split: prod.splits option.splits sum.splits if_splits)

lemma direct_failed:
  assumes "walletConnected w" "exec_status (fst (executeIntentDirectly w ex intent)) = Failed"
  shows "spendTracking (permissionManager (snd (executeIntentDirectly w ex intent)))
           = spendTracking (permissionManager ex)
         \<and> (\<exists>msg. error (fst (executeIntentDirectly w ex intent)) = Some msg
                  \<and> explanation (fst (executeIntentDirectly w ex intent))
                      = ''Execution failed: '' @ msg)"
  using assms
  apply (simp add: executeIntentDirectly_def Let_def
           split: prod.splits bool.splits option.splits if_splits)
  apply (auto dest!: executeTransaction_SomeD executeTransaction_NoneD
                     validateAction_spendTrackingD queryGaiaLLM_spendTrackingD)
  done

lemma direct_raise:
  assumes "walletConnected w"
    and "validateAction w (permissionManager ex) (permissionId intent) (intent_tokenAddress intent)
           (amount intent) (contractAddress intent) = (True, pm1)"
    and "queryGaiaLLM w pm1 intent (marketSnapshot w) = (d, pm2)"
    and "shouldExecute d"
    and "fst (executeTransaction w pm2 e) = Some msg"
    and "permissionId (exec_intent e) = permissionId intent"
    and "amount (exec_intent e) = amount intent"
    and "contractAddress (exec_intent e) = contractAddress intent"
  shows "exec_status (fst (executeIntentDirectly w ex intent)) = Failed
         \<and> error (fst (executeIntentDirectly w ex intent)) = Some msg"
  using assms
  apply (simp add: executeIntentDirectly_def Let_def split: prod.splits option.splits)
  apply (intro allI impI conjI)
  apply ((drule (1) executeTransaction_thrown; simp)+)
  done

lemma process_as_direct:
  "exec_status (fst (processIntent w ex intent)) = exec_status (fst (executeIntentDirectly w ex intent))"
  "decision (fst (processIntent w ex intent)) = decision (fst (executeIntentDirectly w ex intent))"
  "error (fst (processIntent w ex intent)) = error (fst (executeIntentDirectly w ex intent))"
  "exec_transactionHash (fst (processIntent w ex intent))
     = exec_transactionHash (fst (executeIntentDirectly w ex intent))"
  "permissionManager (snd (processIntent w ex intent))
     = permissionManager (snd (executeIntentDirectly w ex intent))"
  "walletConnected w \<Longrightarrow> explanation (fst (processIntent w ex intent))
     = explanation (fst (executeIntentDirectly w ex intent))"
  using pipelines_agree_fields[of w ex intent] by (simp_all split: prod.splits)

text \<open>
  C4. Take a run with the wallet connected, by either path. If it ends failed, the spend
  ledger of every permission is what it was before the run, and the error field holds the
  message thrown, which the explanation repeats after \<open>Execution failed: \<close>. And a run that has
  passed validation and been approved fails in that way, with the message thrown, whenever
  \<open>executeTransaction\<close> throws. (The market snapshot and the decision query cannot throw:
  every failure of the provider ends in the fallback.)
\<close>

theorem failed_run_records_no_spend:
  assumes "walletConnected w"
  shows "\<forall>run \<in> {processIntent, executeIntentDirectly}.
           (exec_status (fst (run w ex intent)) = Failed \<longrightarrow>
              spendTracking (permissionManager (snd (run w ex intent)))
                = spendTracking (permissionManager ex)
              \<and> (\<exists>msg. error (fst (run w ex intent)) = Some msg
                       \<and> explanation (fst (run w ex intent)) = ''Execution failed: '' @ msg))
           \<and> (\<forall>pm1 d pm2 e msg.
                 validateAction w (permissionManager ex) (permissionId intent)
                     (intent_tokenAddress intent) (amount intent) (contractAddress intent) = (True, pm1)
                 \<and> queryGaiaLLM w pm1 intent (marketSnapshot w) = (d, pm2)
                 \<and> shouldExecute d
                 \<and> fst (executeTransaction w pm2 e) = Some msg
                 \<and> permissionId (exec_intent e) = permissionId intent
                 \<and> amount (exec_intent e) = amount intent
                 \<and> contractAddress (exec_intent e) = contractAddress intent
                 \<longrightarrow> exec_status (fst (run w ex intent)) = Failed
                     \<and> error (fst (run w ex intent)) = Some msg)"
  using direct_failed[OF assms, of ex intent] direct_raise[OF assms, of ex intent]
  by (simp add: process_as_direct assms) blast

theorem failed_run_records_no_spend_witness:
  "walletConnected failingWorld
   \<and> exec_status (fst (executeIntentDirectly failingWorld sampleExecutor sampleIntent)) = Failed
   \<and> error (fst (executeIntentDirectly failingWorld sampleExecutor sampleIntent))
       = Some ''Gasless transaction failed: bundler rejected''
   \<and> explanation (fst (executeIntentDirectly failingWorld sampleExecutor sampleIntent))
       = ''Execution failed: Gasless transaction failed: bundler rejected''
   \<and> spendTracking (permissionManager (snd (executeIntentDirectly failingWorld sampleExecutor sampleIntent)))
       = spendTracking sampleManager
   \<and> exec_status (fst (processIntent failingWorld sampleExecutor sampleIntent)) = Failed
   \<and> spendTracking (permissionManager (snd (processIntent failingWorld sampleExecutor sampleIntent)))
       = spendTracking sampleManager"
proof -
  have c: "walletConnected failingWorld"
    by (simp add: failingWorld_def sampleWorld_def)
  have d: "exec_status (fst (executeIntentDirectly failingWorld sampleExecutor sampleIntent)) = Failed"
    by code_simp
  have p: "exec_status (fst (processIntent failingWorld sampleExecutor sampleIntent)) = Failed"
    by code_simp
  have e: "error (fst (executeIntentDirectly failingWorld sampleExecutor sampleIntent))
             = Some ''Gasless transaction failed: bundler rejected''"
    by code_simp
  have m: "permissionManager sampleExecutor = sampleManager"
    by (simp add: sampleExecutor_def)
  show ?thesis
    using failed_run_records_no_spend[OF c, of sampleExecutor sampleIntent] c d p e m
    by auto
qed


subsection \<open>Runs that execute\<close>








subsection \<open>Schedules\<close>

lemma startsWith_iff: "startsWith s p \<longleftrightarrow> (\<exists>t. s = p @ t)"
  by (induction s p rule: startsWith.induct) auto

lemma not_isDigit_space: "\<not> isDigit (CHR '' '')"
  by (simp add: isDigit_def)

lemma matchHere_Some:
  assumes "matchHere s = Some (n, u)"
  shows "\<exists>post. s = ''every '' @ n @ '' '' @ u @ post"
    and "n \<noteq> []" and "list_all isDigit n" and "u \<in> set unitNames"
proof -
  from assms have sw: "startsWith s ''every ''"
    by (simp add: matchHere_def split: if_splits)
  then obtain t where t: "s = ''every '' @ t"
    using startsWith_iff by blast
  then have d6: "drop 6 s = t" by simp
  from assms sw d6 have n: "n = takeWhile isDigit t" "n \<noteq> []"
    by (auto simp: matchHere_def Let_def split: if_splits list.splits option.splits)
  from assms sw d6 obtain r' where r': "dropWhile isDigit t = CHR '' '' # r'"
    "find (startsWith r') unitNames = Some u"
    by (auto simp: matchHere_def Let_def split: if_splits list.splits option.splits)
  from r'(2) have u: "u \<in> set unitNames" "startsWith r' u"
    by (auto simp: find_Some_iff)
  then obtain post where post: "r' = u @ post"
    using startsWith_iff by blast
  have "t = takeWhile isDigit t @ dropWhile isDigit t" by simp
  with n r' post have "t = n @ '' '' @ u @ post" by simp
  with t show "\<exists>post. s = ''every '' @ n @ '' '' @ u @ post" by auto
  show "n \<noteq> []" by (rule n(2))
  show "list_all isDigit n"
    using n(1) by (simp add: list_all_iff) (meson set_takeWhileD)
  show "u \<in> set unitNames" by (rule u(1))
qed

lemma matchHere_pattern:
  assumes "n \<noteq> []" "list_all isDigit n" "u \<in> set unitNames"
  shows "matchHere (''every '' @ n @ '' '' @ u @ post) \<noteq> None"
proof -
  have tw: "takeWhile isDigit (n @ CHR '' '' # u @ post) = n"
    using assms(2) by (simp add: list_all_iff takeWhile_append2 not_isDigit_space)
  have dw: "dropWhile isDigit (n @ CHR '' '' # u @ post) = CHR '' '' # u @ post"
    using assms(2) by (simp add: list_all_iff dropWhile_append2 not_isDigit_space)
  have "startsWith (u @ post) u"
    by (simp add: startsWith_iff)
  with assms(3) have f: "find (startsWith (u @ post)) unitNames \<noteq> None"
    by (auto simp: find_None_iff)
  show ?thesis
    using assms(1) f by (auto simp: matchHere_def tw dw Let_def)
qed

lemma intervalMatch_Some:
  "intervalMatch s = Some (n, u) \<Longrightarrow> everyPattern s n u"
proof (induction s)
  case Nil
  then show ?case by simp
next
  case (Cons c cs)
  show ?case
  proof (cases "matchHere (c # cs)")
    case None
    with Cons have "everyPattern cs n u" by simp
    then obtain pre post where "cs = pre @ ''every '' @ n @ '' '' @ u @ post"
      by (auto simp: everyPattern_def)
    then have "c # cs = (c # pre) @ ''every '' @ n @ '' '' @ u @ post" by simp
    with \<open>everyPattern cs n u\<close> show ?thesis
      unfolding everyPattern_def by blast
  next
    case (Some g)
    with Cons.prems have m: "matchHere (c # cs) = Some (n, u)" by simp
    from matchHere_Some[OF m] obtain post where "c # cs = [] @ ''every '' @ n @ '' '' @ u @ post"
      by auto
    with matchHere_Some(2,3,4)[OF m] show ?thesis
      unfolding everyPattern_def by blast
  qed
qed

lemma intervalMatch_pattern:
  assumes "n \<noteq> []" "list_all isDigit n" "u \<in> set unitNames"
  shows "intervalMatch (pre @ ''every '' @ n @ '' '' @ u @ post) \<noteq> None"
proof (induction pre)
  case Nil
  from matchHere_pattern[OF assms, of post] show ?case
    by (auto split: option.splits)
next
  case (Cons a pre)
  then show ?case by (auto split: option.splits)
qed

lemma intervalMatch_None:
  assumes "intervalMatch s = None"
  shows "\<not> everyPattern s n u"
proof
  assume "everyPattern s n u"
  then obtain pre post where s: "s = pre @ ''every '' @ n @ '' '' @ u @ post"
    and h: "n \<noteq> []" "list_all isDigit n" "u \<in> set unitNames"
    unfolding everyPattern_def by blast
  from intervalMatch_pattern[OF h, of pre post] assms s show False by simp
qed

lemma digitsVal_3: "digitsVal ''3'' = 3"
  by (simp add: digitsVal_def digitVal_def)

lemma parseSchedule_every_3_days:
  "parseScheduleFromDescription w ''every 3 days'' = recurringEvery w Daily (Fin 3)"
  by (simp add: parseScheduleFromDescription_def toLowerCase_def lowerChar_def matchHere_def
        unitNames_def isDigit_def parseInt_def digitsVal_3 unitFrequency_def recurringEvery_def
        round64_numeral Let_def)

lemma next_after_3_days:
  assumes "- 8640000000000000 \<le> dateNow w" "dateNow w + 259200000 \<le> 8640000000000000"
  shows "calculateNextExecution w (Some Daily) (Fin 3) = DateAt (dateNow w + 259200000)"
proof -
  have eq: "rat_of_int (dateNow w) + 259200000 = of_int (dateNow w + 259200000)"
    by simp
  have "\<bar>dateNow w + 259200000\<bar> \<le> 2 ^ 53"
    using assms by simp
  then have r: "round64 (rat_of_int (dateNow w) + 259200000) = Fin (of_int (dateNow w + 259200000))"
    unfolding eq by (rule round64_of_int)
  have "\<bar>dateNow w + 259200000\<bar> \<le> 8640000000000000"
    using assms by simp
  then have "\<bar>rat_of_int (dateNow w + 259200000)\<bar> \<le> 8640000000000000"
    by (metis of_int_abs of_int_le_iff of_int_numeral)
  then have nd: "newDate (Fin (of_int (dateNow w + 259200000))) = DateAt (dateNow w + 259200000)"
    by (simp add: newDate_def truncateToInt_def del: of_int_add)
  show ?thesis
    by (simp add: calculateNextExecution_def getTime_def round64_numeral r nd del: of_int_add)
qed

lemma digitsVal_nonneg: "0 \<le> digitsVal ds"
proof -
  have "0 \<le> digitVal c" for c
    by (auto simp: digitVal_def split: option.splits)
  then have "0 \<le> foldl (\<lambda>acc c. 10 * acc + digitVal c) a ds" if "0 \<le> a" for a
    using that by (induction ds arbitrary: a) simp_all
  then show ?thesis
    by (simp add: digitsVal_def)
qed

text \<open>\<open>parseInt\<close> gives the number the digits write when that is at most \<open>2^53\<close>.\<close>

lemma parseInt_exact:
  assumes "digitsVal ds \<le> 2 ^ 53"
  shows "parseInt ds = Fin (of_int (digitsVal ds))"
proof -
  have "\<bar>digitsVal ds\<bar> \<le> 2 ^ 53"
    using assms digitsVal_nonneg[of ds] by simp
  then show ?thesis
    unfolding parseInt_def by (rule round64_of_int)
qed

text \<open>
  C8 (as amended). \<open>parseScheduleFromDescription\<close> works on the lower-cased description and
  takes the first rule that applies: \<open>every minute\<close> or \<open>per minute\<close> gives minutely; else
  \<open>daily\<close> or \<open>every day\<close> daily; else \<open>weekly\<close> or \<open>every week\<close> weekly; else \<open>hourly\<close> or
  \<open>every hour\<close> hourly; else \<open>monthly\<close> or \<open>every month\<close> monthly, each with interval 1. When
  none of these phrases occurs, an occurrence of \<open>every N <unit>\<close> gives the recurring
  schedule of that unit's frequency whose interval is \<open>N\<close> rounded to binary64, which is \<open>N\<close>
  itself when \<open>N\<close> is at most \<open>2^53\<close>; without such an occurrence the schedule is the inactive
  one-off schedule. \<open>every 3 days\<close> gives a recurring daily schedule with interval 3; its
  next execution is 3 times 86400 seconds after now when the clock reads a valid time value
  and that instant is no later than the last one a \<open>Date\<close> can hold (8.64e15 ms).
\<close>

theorem parseSchedule_priority:
  "(let L = toLowerCase desc;
        r = parseScheduleFromDescription w desc;
        minutely = (str_includes L ''every minute'' \<or> str_includes L ''per minute'');
        daily = (str_includes L ''daily'' \<or> str_includes L ''every day'');
        weekly = (str_includes L ''weekly'' \<or> str_includes L ''every week'');
        hourly = (str_includes L ''hourly'' \<or> str_includes L ''every hour'');
        monthly = (str_includes L ''monthly'' \<or> str_includes L ''every month'')
    in (minutely \<longrightarrow> r = recurringEvery w Minutely (Fin 1))
     \<and> (\<not> minutely \<and> daily \<longrightarrow> r = recurringEvery w Daily (Fin 1))
     \<and> (\<not> minutely \<and> \<not> daily \<and> weekly \<longrightarrow> r = recurringEvery w Weekly (Fin 1))
     \<and> (\<not> minutely \<and> \<not> daily \<and> \<not> weekly \<and> hourly \<longrightarrow> r = recurringEvery w Hourly (Fin 1))
     \<and> (\<not> minutely \<and> \<not> daily \<and> \<not> weekly \<and> \<not> hourly \<and> monthly
          \<longrightarrow> r = recurringEvery w Monthly (Fin 1))
     \<and> (\<not> minutely \<and> \<not> daily \<and> \<not> weekly \<and> \<not> hourly \<and> \<not> monthly
          \<longrightarrow> (if \<exists>n u. everyPattern L n u
               then \<exists>n u. everyPattern L n u \<and> r = recurringEvery w (unitFrequency u) (parseInt n)
                      \<and> (digitsVal n \<le> 2 ^ 53 \<longrightarrow> interval r = Some (Fin (of_int (digitsVal n))))
               else r = onceSchedule)))
   \<and> unitFrequency ''minute'' = Minutely \<and> unitFrequency ''hour'' = Hourly
   \<and> unitFrequency ''day'' = Daily \<and> unitFrequency ''week'' = Weekly
   \<and> unitFrequency ''month'' = Monthly
   \<and> parseScheduleFromDescription w ''every 3 days'' = recurringEvery w Daily (Fin 3)
   \<and> interval (parseScheduleFromDescription w ''every 3 days'') = Some (Fin 3)
   \<and> (- 8640000000000000 \<le> dateNow w \<and> dateNow w + 3 * 86400 * 1000 \<le> 8640000000000000
        \<longrightarrow> nextExecution (parseScheduleFromDescription w ''every 3 days'')
              = Some (DateAt (dateNow w + 3 * 86400 * 1000)))"
proof -
  let ?L = "toLowerCase desc"
  let ?r = "parseScheduleFromDescription w desc"
  have phrases:
    "str_includes ?L ''every minute'' \<or> str_includes ?L ''per minute''
       \<Longrightarrow> ?r = recurringEvery w Minutely (Fin 1)"
    "\<not> (str_includes ?L ''every minute'' \<or> str_includes ?L ''per minute'')
       \<Longrightarrow> str_includes ?L ''daily'' \<or> str_includes ?L ''every day''
       \<Longrightarrow> ?r = recurringEvery w Daily (Fin 1)"
    "\<not> (str_includes ?L ''every minute'' \<or> str_includes ?L ''per minute'')
       \<Longrightarrow> \<not> (str_includes ?L ''daily'' \<or> str_includes ?L ''every day'')
       \<Longrightarrow> str_includes ?L ''weekly'' \<or> str_includes ?L ''every week''
       \<Longrightarrow> ?r = recurringEvery w Weekly (Fin 1)"
    "\<not> (str_includes ?L ''every minute'' \<or> str_includes ?L ''per minute'')
       \<Longrightarrow> \<not> (str_includes ?L ''daily'' \<or> str_includes ?L ''every day'')
       \<Longrightarrow> \<not> (str_includes ?L ''weekly'' \<or> str_includes ?L ''every week'')
       \<Longrightarrow> str_includes ?L ''hourly'' \<or> str_includes ?L ''every hour''
       \<Longrightarrow> ?r = recurringEvery w Hourly (Fin 1)"
    "\<not> (str_includes ?L ''every minute'' \<or> str_includes ?L ''per minute'')
       \<Longrightarrow> \<not> (str_includes ?L ''daily'' \<or> str_includes ?L ''every day'')
       \<Longrightarrow> \<not> (str_includes ?L ''weekly'' \<or> str_includes ?L ''every week'')
       \<Longrightarrow> \<not> (str_includes ?L ''hourly'' \<or> str_includes ?L ''every hour'')
       \<Longrightarrow> str_includes ?L ''monthly'' \<or> str_includes ?L ''every month''
       \<Longrightarrow> ?r = recurringEvery w Monthly (Fin 1)"
    unfolding parseScheduleFromDescription_def recurringEvery_def Let_def by simp_all
  have generic:
    "(if \<exists>n u. everyPattern ?L n u
      then \<exists>n u. everyPattern ?L n u \<and> ?r = recurringEvery w (unitFrequency u) (parseInt n)
             \<and> (digitsVal n \<le> 2 ^ 53 \<longrightarrow> interval ?r = Some (Fin (of_int (digitsVal n))))
      else ?r = onceSchedule)"
    if none: "\<not> (str_includes ?L ''every minute'' \<or> str_includes ?L ''per minute'')"
      "\<not> (str_includes ?L ''daily'' \<or> str_includes ?L ''every day'')"
      "\<not> (str_includes ?L ''weekly'' \<or> str_includes ?L ''every week'')"
      "\<not> (str_includes ?L ''hourly'' \<or> str_includes ?L ''every hour'')"
      "\<not> (str_includes ?L ''monthly'' \<or> str_includes ?L ''every month'')"
  proof (cases "intervalMatch ?L")
    case None
    with none have "?r = onceSchedule"
      unfolding parseScheduleFromDescription_def onceSchedule_def Let_def by simp
    with intervalMatch_None[OF None] show ?thesis by simp
  next
    case (Some g)
    obtain n u where g: "g = (n, u)" by (cases g)
    with Some none have r: "?r = recurringEvery w (unitFrequency u) (parseInt n)"
      unfolding parseScheduleFromDescription_def recurringEvery_def Let_def by simp
    have pat: "everyPattern ?L n u"
      using intervalMatch_Some Some g by simp
    have "interval ?r = Some (Fin (of_int (digitsVal n)))" if "digitsVal n \<le> 2 ^ 53"
      using parseInt_exact[OF that] by (simp add: r recurringEvery_def)
    with r pat show ?thesis by auto
  qed
  have units: "unitFrequency ''minute'' = Minutely" "unitFrequency ''hour'' = Hourly"
    "unitFrequency ''day'' = Daily" "unitFrequency ''week'' = Weekly"
    "unitFrequency ''month'' = Monthly"
    by (simp_all add: unitFrequency_def)
  have ex: "parseScheduleFromDescription w ''every 3 days'' = recurringEvery w Daily (Fin 3)"
    "interval (parseScheduleFromDescription w ''every 3 days'') = Some (Fin 3)"
    by (simp_all add: parseSchedule_every_3_days recurringEvery_def)
  have nx: "nextExecution (parseScheduleFromDescription w ''every 3 days'')
              = Some (DateAt (dateNow w + 3 * 86400 * 1000))"
    if "- 8640000000000000 \<le> dateNow w \<and> dateNow w + 3 * 86400 * 1000 \<le> 8640000000000000"
    using that next_after_3_days[of w] by (simp add: parseSchedule_every_3_days recurringEvery_def)
  show ?thesis
    unfolding Let_def using phrases generic units ex nx by blast
qed

theorem parseSchedule_priority_witness:
  "\<not> str_includes (toLowerCase ''Swap EVERY 3 days'') ''every minute''
   \<and> \<not> str_includes (toLowerCase ''Swap EVERY 3 days'') ''per minute''
   \<and> \<not> str_includes (toLowerCase ''Swap EVERY 3 days'') ''daily''
   \<and> \<not> str_includes (toLowerCase ''Swap EVERY 3 days'') ''every day''
   \<and> \<not> str_includes (toLowerCase ''Swap EVERY 3 days'') ''weekly''
   \<and> \<not> str_includes (toLowerCase ''Swap EVERY 3 days'') ''every week''
   \<and> \<not> str_includes (toLowerCase ''Swap EVERY 3 days'') ''hourly''
   \<and> \<not> str_includes (toLowerCase ''Swap EVERY 3 days'') ''every hour''
   \<and> \<not> str_includes (toLowerCase ''Swap EVERY 3 days'') ''monthly''
   \<and> \<not> str_includes (toLowerCase ''Swap EVERY 3 days'') ''every month''
   \<and> everyPattern (toLowerCase ''Swap EVERY 3 days'') ''3'' ''day''
   \<and> digitsVal ''3'' = 3
   \<and> parseScheduleFromDescription sampleWorld ''Swap EVERY 3 days''
       = recurringEvery sampleWorld Daily (Fin 3)
   \<and> - 8640000000000000 \<le> dateNow sampleWorld
   \<and> dateNow sampleWorld + 3 * 86400 * 1000 \<le> 8640000000000000
   \<and> nextExecution (parseScheduleFromDescription sampleWorld ''every 3 days'')
       = Some (DateAt 259202000)
   \<and> str_includes (toLowerCase ''Daily, or every minute'') ''every minute''
   \<and> parseScheduleFromDescription sampleWorld ''Daily, or every minute''
       = recurringEvery sampleWorld Minutely (Fin 1)"
proof -
  have none:
    "\<not> str_includes (toLowerCase ''Swap EVERY 3 days'') ''every minute''"
    "\<not> str_includes (toLowerCase ''Swap EVERY 3 days'') ''per minute''"
    "\<not> str_includes (toLowerCase ''Swap EVERY 3 days'') ''daily''"
    "\<not> str_includes (toLowerCase ''Swap EVERY 3 days'') ''every day''"
    "\<not> str_includes (toLowerCase ''Swap EVERY 3 days'') ''weekly''"
    "\<not> str_includes (toLowerCase ''Swap EVERY 3 days'') ''every week''"
    "\<not> str_includes (toLowerCase ''Swap EVERY 3 days'') ''hourly''"
    "\<not> str_includes (toLowerCase ''Swap EVERY 3 days'') ''every hour''"
    "\<not> str_includes (toLowerCase ''Swap EVERY 3 days'') ''monthly''"
    "\<not> str_includes (toLowerCase ''Swap EVERY 3 days'') ''every month''"
    by code_simp+
  have "intervalMatch (toLowerCase ''Swap EVERY 3 days'') = Some (''3'', ''day'')"
    by code_simp
  then have pat: "everyPattern (toLowerCase ''Swap EVERY 3 days'') ''3'' ''day''"
    by (rule intervalMatch_Some)
  have val: "parseScheduleFromDescription sampleWorld ''Swap EVERY 3 days''
               = recurringEvery sampleWorld Daily (Fin 3)"
    by code_simp
  have now: "dateNow sampleWorld = 2000"
    by (simp add: sampleWorld_def)
  have first: "str_includes (toLowerCase ''Daily, or every minute'') ''every minute''"
    by code_simp
  have nx: "nextExecution (recurringEvery sampleWorld Daily (Fin 3)) = Some (DateAt 259202000)"
    by code_simp
  show ?thesis
    using parseSchedule_priority[of "''Daily, or every minute''" sampleWorld]
          none pat val now first digitsVal_3 nx
    by (simp add: Let_def)
qed

text \<open>
  C8 as stated fails for a large \<open>N\<close> and at the end of the range of \<open>Date\<close>. The description
  \<open>every 9007199254740993 minutes\<close> gives the interval 9007199254740992, and a next execution
  that is an invalid date. When the clock reads the last instant a \<open>Date\<close> can hold,
  \<open>every 3 days\<close> gives an invalid date as well.
\<close>

theorem parseSchedule_rounds_large_interval:
  "everyPattern (toLowerCase ''every 9007199254740993 minutes'') ''9007199254740993'' ''minute''
   \<and> digitsVal ''9007199254740993'' = 9007199254740993
   \<and> interval (parseScheduleFromDescription sampleWorld ''every 9007199254740993 minutes'')
       = Some (Fin 9007199254740992)
   \<and> frequency (parseScheduleFromDescription sampleWorld ''every 9007199254740993 minutes'')
       = Some Minutely
   \<and> nextExecution (parseScheduleFromDescription sampleWorld ''every 9007199254740993 minutes'')
       = Some InvalidDate
   \<and> dateNow lastDayWorld = 8640000000000000
   \<and> nextExecution (parseScheduleFromDescription lastDayWorld ''every 3 days'') = Some InvalidDate"
proof -
  have "intervalMatch (toLowerCase ''every 9007199254740993 minutes'')
          = Some (''9007199254740993'', ''minute'')"
    by code_simp
  then have pat: "everyPattern (toLowerCase ''every 9007199254740993 minutes'')
                    ''9007199254740993'' ''minute''"
    by (rule intervalMatch_Some)
  have d: "digitsVal ''9007199254740993'' = 9007199254740993"
    by code_simp
  have i: "interval (parseScheduleFromDescription sampleWorld ''every 9007199254740993 minutes'')
             = Some (Fin 9007199254740992)"
    by code_simp
  have f: "frequency (parseScheduleFromDescription sampleWorld ''every 9007199254740993 minutes'')
             = Some Minutely"
    by code_simp
  have n: "nextExecution (parseScheduleFromDescription sampleWorld ''every 9007199254740993 minutes'')
             = Some InvalidDate"
    by code_simp
  have l: "dateNow lastDayWorld = 8640000000000000"
    by (simp add: lastDayWorld_def)
  have x: "nextExecution (parseScheduleFromDescription lastDayWorld ''every 3 days'') = Some InvalidDate"
    by code_simp
  show ?thesis
    using pat d i f n l x by simp
qed

text \<open>
  A next execution beyond the range of \<open>Date\<close> is an invalid date also for an interval that
  is read exactly: \<open>every 150000000000 minutes\<close> is 9e15 ms away.
\<close>

lemma parseSchedule_far_next_execution:
  "interval (parseScheduleFromDescription sampleWorld ''every 150000000000 minutes'')
     = Some (Fin 150000000000)
   \<and> nextExecution (parseScheduleFromDescription sampleWorld ''every 150000000000 minutes'')
       = Some InvalidDate"
  by code_simp


end
